theory Spec2Isabelle
  imports Complex_Main "HOL-Library.AList" "HOL-Library.Char_ord" "HOL-Library.List_Lexorder"
    "HOL-Library.Product_Lexorder"
begin
section \<open>Python strings\<close>

text \<open>
  A Python string is the list of its Unicode code points, and a code point is a natural
  number. \<open>u\<close> gives the string of a literal of the source. \<open>re.match(r'[A-Z]', c)\<close> tests a
  code point against the ASCII capitals.

  \<open>str.upper()\<close> replaces each code point by its full uppercase mapping, one to three code
  points (the sharp s, code point 223, becomes \<open>SS\<close>). The mapping is the Unicode database of the Python
  runtime, not a part of the exporter: it is a parameter (\<open>case_map\<close>), which gives the
  first code point of the mapping and the rest.

  \<open>str.strip()\<close> removes the code points for which \<open>str.isspace()\<close> holds.
\<close>

type_synonym str = "nat list"

type_synonym case_map = "nat \<Rightarrow> nat \<times> nat list"

definition u :: "string \<Rightarrow> str" where
  "u s = map of_char s"

definition is_AZ :: "nat \<Rightarrow> bool" where
  \<comment> \<open>\<open>re.match(r'[A-Z]', c)\<close> on a one-character string\<close>
  "is_AZ c = (65 \<le> c \<and> c \<le> 90)"

definition upper :: "case_map \<Rightarrow> str \<Rightarrow> str" where
  "upper uc s = concat (map (\<lambda>c. fst (uc c) # snd (uc c)) s)"

definition is_space :: "nat \<Rightarrow> bool" where
  \<comment> \<open>\<open>str.isspace()\<close> on a one-character string\<close>
  "is_space c =
     ((0x9 \<le> c \<and> c \<le> 0xD) \<or> (0x1C \<le> c \<and> c \<le> 0x20) \<or> c = 0x85 \<or> c = 0xA0
      \<or> c = 0x1680 \<or> (0x2000 \<le> c \<and> c \<le> 0x200A) \<or> c = 0x2028 \<or> c = 0x2029
      \<or> c = 0x202F \<or> c = 0x205F \<or> c = 0x3000)"

definition strip :: "str \<Rightarrow> str" where
  "strip s = rev (dropWhile is_space (rev (dropWhile is_space s)))"

definition startswith :: "str \<Rightarrow> char \<Rightarrow> bool" where
  \<comment> \<open>with a one-character prefix\<close>
  "startswith s c = (case s of [] \<Rightarrow> False | x # _ \<Rightarrow> x = of_char c)"

definition endswith :: "str \<Rightarrow> char \<Rightarrow> bool" where
  "endswith s c = (case rev s of [] \<Rightarrow> False | x # _ \<Rightarrow> x = of_char c)"

definition ascii_upper :: "case_map \<Rightarrow> bool" where
  \<comment> \<open>what every version of the Unicode database says of the ASCII code points: \<open>a..z\<close> go to
     \<open>A..Z\<close>, the others stay\<close>
  "ascii_upper uc =
     list_all (\<lambda>c. uc c = (if 97 \<le> c \<and> c \<le> 122 then c - 32 else c, [])) [0..<128]"

definition latin1_upper :: case_map where
  \<comment> \<open>the uppercase mapping of Unicode on the code points below 256 (Basic Latin and
     Latin-1 Supplement), for the examples; the code points from 256 on are left alone here\<close>
  "latin1_upper c =
     (if 97 \<le> c \<and> c \<le> 122 then (c - 32, [])
      else if c = 0xB5 then (0x39C, [])
      else if c = 0xDF then (0x53, [0x53])
      else if 0xE0 \<le> c \<and> c \<le> 0xFE \<and> c \<noteq> 0xF7 then (c - 32, [])
      else if c = 0xFF then (0x178, [])
      else (c, []))"

section \<open>The identifier sanitizer\<close>

text \<open>
  \<^verbatim>\<open>
  def slugify(s):
      if not s:
          s = 'none'
      s = s.upper()
      for k in range(len(s)):
          if not re.match(r'[A-Z]', s[k]):
              s = s[:k] + '_' + s[(k + 1):]
      if not re.match(r'[A-Z]', s[0]):
          s = '_' + s
      while '__' in s:
          s = s.replace('__', '_')
      if s[-1] == '_':
          s = s[:-1]
      return s
  \<close>
\<close>

abbreviation us :: nat where
  \<comment> \<open>the underscore\<close>
  "us \<equiv> of_char CHR ''_''"

function replace_loop :: "nat \<Rightarrow> nat \<Rightarrow> str \<Rightarrow> str" where
  \<comment> \<open>the \<open>for k in range(n)\<close> loop, from index \<open>k\<close> on\<close>
  "replace_loop k n s =
     (if k < n
      then replace_loop (Suc k) n
             (if is_AZ (s ! k) then s else take k s @ u ''_'' @ drop (Suc k) s)
      else s)"
  by pat_completeness auto
termination
  by (relation "measure (\<lambda>(k, n, s). n - k)") auto

fun contains_uu :: "str \<Rightarrow> bool" where
  \<comment> \<open>\<open>'__' in s\<close>\<close>
  "contains_uu (a # b # cs) = ((a = us \<and> b = us) \<or> contains_uu (b # cs))"
| "contains_uu cs = False"

fun replace_uu :: "str \<Rightarrow> str" where
  \<comment> \<open>\<open>s.replace('__', '_')\<close>: one pass, left to right, occurrences not overlapping\<close>
  "replace_uu (a # b # cs) =
     (if a = us \<and> b = us then us # replace_uu cs
      else a # replace_uu (b # cs))"
| "replace_uu cs = cs"

lemma length_replace_uu_le: "length (replace_uu s) \<le> length s"
  by (induction s rule: replace_uu.induct) auto

lemma length_replace_uu_less: "contains_uu s \<Longrightarrow> length (replace_uu s) < length s"
proof (induction s rule: replace_uu.induct)
  case (1 a b cs)
  show ?case
  proof (cases "a = us \<and> b = us")
    case True
    then show ?thesis
      using length_replace_uu_le [of cs] by simp
  next
    case False
    with 1 show ?thesis by auto
  qed
qed simp_all

function collapse :: "str \<Rightarrow> str" where
  \<comment> \<open>\<open>while '__' in s: s = s.replace('__', '_')\<close>\<close>
  "collapse s = (if contains_uu s then collapse (replace_uu s) else s)"
  by pat_completeness auto
termination
  by (relation "measure length") (auto simp: length_replace_uu_less)

definition slugify :: "case_map \<Rightarrow> str \<Rightarrow> str" where
  "slugify uc s0 =
     (let s1 = (if s0 = [] then u ''none'' else s0);
          s2 = upper uc s1;
          s3 = replace_loop 0 (length s2) s2;
          s4 = (if \<not> is_AZ (s3 ! 0) then u ''_'' @ s3 else s3);
          s5 = collapse s4
      in if last s5 = us then butlast s5 else s5)"

definition is_digit :: "nat \<Rightarrow> bool" where
  "is_digit c = (48 \<le> c \<and> c \<le> 57)"

definition legal_identifier :: "str \<Rightarrow> bool" where
  \<comment> \<open>the grammar the specification gives for identifiers: \<open>^[A-Z][A-Z0-9_]*$\<close>, no \<open>__\<close>,
     no trailing \<open>_\<close>\<close>
  "legal_identifier s =
     (case s of [] \<Rightarrow> False
      | c # cs \<Rightarrow> is_AZ c \<and> list_all (\<lambda>x. is_AZ x \<or> is_digit x \<or> x = us) cs
          \<and> \<not> contains_uu s \<and> last s \<noteq> us)"

definition id_char :: "nat \<Rightarrow> bool" where
  \<comment> \<open>the characters \<open>slugify\<close> can leave in a name\<close>
  "id_char c = (is_AZ c \<or> c = us)"

text \<open>Two closed forms used in the proofs: the replacement loop is a \<open>map\<close>, and
  \<open>s4_of\<close> is the string just before the collapsing loop.\<close>

definition under :: "nat \<Rightarrow> nat" where
  "under c = (if is_AZ c then c else us)"

definition s4_of :: "case_map \<Rightarrow> str \<Rightarrow> str" where
  "s4_of uc s0 = (let s3 = map under (upper uc (if s0 = [] then u ''none'' else s0))
     in if \<not> is_AZ (s3 ! 0) then u ''_'' @ s3 else s3)"

section \<open>Numbers and their formatting\<close>

text \<open>
  Every finite Python float is a rational number, and the model computes with
  rationals exactly. \<open>int(x)\<close> truncates towards zero.
  \<^verbatim>\<open>
  def nearly_equal(a, b, sig_fig=5):
      return a == b or int(a * 10 ** sig_fig) == int(b * 10 ** sig_fig)

  def clamp_color(col):
      return tuple([max(min(c, 1.0), 0.0) for c in col])
  \<close>
\<close>

type_synonym vec3 = "rat \<times> rat \<times> rat"

definition py_int :: "rat \<Rightarrow> int" where
  "py_int x = (if 0 \<le> x then \<lfloor>x\<rfloor> else \<lceil>x\<rceil>)"

definition nearly_equal :: "rat \<Rightarrow> rat \<Rightarrow> bool" where
  \<comment> \<open>always called with the default \<open>sig_fig = 5\<close>\<close>
  "nearly_equal a b = (a = b \<or> py_int (a * 10 ^ 5) = py_int (b * 10 ^ 5))"

definition clamp :: "rat \<Rightarrow> rat" where
  "clamp c = max (min c 1) 0"

definition clamp_color :: "vec3 \<Rightarrow> vec3" where
  "clamp_color col = (case col of (r, g, b) \<Rightarrow> (clamp r, clamp g, clamp b))"

text \<open>
  The \<open>%\<close> conversions the exporter uses: \<open>%d\<close> and \<open>%i\<close> on the natural numbers it
  formats, \<open>%03d\<close>, and \<open>%.Nf\<close>, which rounds the exact value to \<open>N\<close> decimals, ties to
  even, and keeps the sign of a negative value that rounds to zero.
\<close>

definition digit :: "nat \<Rightarrow> nat" where
  "digit d = u ''0123456789'' ! d"

fun dec :: "nat \<Rightarrow> str" where
  "dec n = (if n < 10 then [digit n] else dec (n div 10) @ [digit (n mod 10)])"

declare dec.simps [simp del]

definition zfill :: "nat \<Rightarrow> str \<Rightarrow> str" where
  "zfill w s = replicate (w - length s) (of_char CHR ''0'') @ s"

definition fmt_03d :: "nat \<Rightarrow> str" where
  "fmt_03d n = zfill 3 (dec n)"

definition round_half_even :: "rat \<Rightarrow> nat" where
  \<comment> \<open>on a value that is not negative\<close>
  "round_half_even q =
     (let f = nat \<lfloor>q\<rfloor>; r = q - of_nat f
      in if r < 1 / 2 then f else if 1 / 2 < r then Suc f else if even f then f else Suc f)"

definition fmt_f :: "nat \<Rightarrow> rat \<Rightarrow> str" where
  \<comment> \<open>\<open>'%.Nf' % x\<close>\<close>
  "fmt_f n x =
     (let m = round_half_even (\<bar>x\<bar> * 10 ^ n)
      in (if x < 0 then u ''-'' else []) @ dec (m div 10 ^ n)
         @ (if n = 0 then [] else u ''.'' @ zfill n (dec (m mod 10 ^ n))))"

definition fmt3 :: "nat \<Rightarrow> vec3 \<Rightarrow> str" where
  \<comment> \<open>\<open>'%.Nf %.Nf %.Nf' % v\<close>\<close>
  "fmt3 n v = (case v of (x, y, z) \<Rightarrow> fmt_f n x @ u '' '' @ fmt_f n y @ u '' '' @ fmt_f n z)"

section \<open>The text emitter\<close>

text \<open>
  \<^verbatim>\<open>
  def fw(line):
      strippedLine = line.strip()
      if strippedLine.startswith('}') or strippedLine.startswith(']'):
          fw.indentation -= 1
      if fw.isLastCharacterACariageReturn:
          file.write('  ' * fw.indentation)
      file.write(line)
      fw.isLastCharacterACariageReturn = line.endswith('\n')
      if strippedLine.endswith('{') or strippedLine.endswith('['):
          fw.indentation += 1
  fw.indentation = 0
  fw.isLastCharacterACariageReturn = False
  \<close>
  The state of \<open>fw\<close> is its two attributes and the text written to the file so far.
  \<open>'  ' * n\<close> is empty when \<open>n\<close> is not positive.
\<close>

record emitter =
  indentation :: int
  isLastCharacterACariageReturn :: bool
  file_text :: str

definition starts_closing :: "str \<Rightarrow> bool" where
  "starts_closing line = (startswith (strip line) CHR ''}'' \<or> startswith (strip line) CHR '']'')"

definition ends_opening :: "str \<Rightarrow> bool" where
  "ends_opening line = (endswith (strip line) CHR ''{'' \<or> endswith (strip line) CHR ''['')"

definition fw :: "str \<Rightarrow> emitter \<Rightarrow> emitter" where
  "fw line e =
     (let d1 = (if starts_closing line then indentation e - 1 else indentation e);
          f1 = (if isLastCharacterACariageReturn e
                then file_text e @ concat (replicate (nat d1) (u ''  '')) else file_text e)
      in \<lparr> indentation = (if ends_opening line then d1 + 1 else d1),
           isLastCharacterACariageReturn = endswith line CHR ''\<newline>'',
           file_text = f1 @ line \<rparr>)"

definition fw_start :: emitter where
  "fw_start = \<lparr> indentation = 0, isLastCharacterACariageReturn = False, file_text = [] \<rparr>"

text \<open>
  No function of the exporter reads the state of \<open>fw\<close>, so the model lets each of them
  return the list of the lines it passes to \<open>fw\<close>, in call order; the file is what \<open>fw\<close>
  makes of that list.
\<close>

definition fw_all :: "str list \<Rightarrow> emitter \<Rightarrow> emitter" where
  "fw_all ls e = foldl (\<lambda>e l. fw l e) e ls"

definition depth_before :: "str \<Rightarrow> emitter \<Rightarrow> int" where
  \<comment> \<open>the depth \<open>fw\<close> indents \<open>line\<close> with: after the decrement, before the increment\<close>
  "depth_before line e = (if starts_closing line then indentation e - 1 else indentation e)"

fun depths :: "str list \<Rightarrow> emitter \<Rightarrow> int list" where
  \<comment> \<open>every value the depth counter takes while the lines are written\<close>
  "depths [] e = []"
| "depths (l # ls) e = depth_before l e # indentation (fw l e) # depths ls (fw l e)"

section \<open>The host's scene data\<close>

text \<open>
  The exporter reads Blender's scene through accessor calls. The model gives each host
  object a record of the attributes the exporter reads, with the host's identity of the
  object as a number (\<open>*_ident\<close>): dictionaries and tags are keyed by identity, not by
  name. Results of host services that are not part of the exporter (matrix
  decomposition, path resolution, tessellation, derived objects) are data of the scene.
\<close>

datatype error = KeyError | IndexError | JSONDecodeError | OSError

text \<open>
  A function of the exporter returns, or raises an exception. The exception comes with
  the fragments the function has passed to \<open>fw\<close> before it was raised: they are in the
  file.
\<close>

type_synonym 'a result = "(error \<times> str list) + 'a"

record image =
  im_ident :: nat
  im_name :: str
  filepath_ref :: str    \<comment> \<open>what \<open>path_reference\<close> returns for the image\<close>
  filepath_base :: str   \<comment> \<open>\<open>os.path.basename(filepath_full)\<close>\<close>
  filepath_full :: str   \<comment> \<open>\<open>bpy.path.abspath(image.filepath)\<close>\<close>

record tex =
  tex_type :: str
  tex_image :: "image option"

record material =
  diffuse_color :: vec3
  ambient :: rat
  emit :: rat
  use_face_texture :: bool
  texture_slots :: "tex option option list"
    \<comment> \<open>a slot is empty (\<open>None\<close>) or holds a \<open>mtex\<close>, read only through \<open>mtex.texture\<close>\<close>

datatype fverts = Tri nat nat nat | Quad nat nat nat nat

record face =
  vertices :: fverts        \<comment> \<open>a tessellated face has three or four vertex indices\<close>
  material_index :: nat
  use_smooth :: bool
  fuv_image :: "image option"
    \<comment> \<open>\<open>mesh.tessface_uv_textures.active.data[i].image\<close>, read when the layer is active\<close>
  fuv_uv :: "(rat \<times> rat) list"   \<comment> \<open>\<open>...data[i].uv\<close>\<close>

record mesh =
  me_ident :: nat
  me_name :: str
  tessfaces :: "face list"
  polygons :: nat           \<comment> \<open>how many polygons the mesh has\<close>
  calc_tessface :: "face list"
    \<comment> \<open>the faces \<open>mesh.update(calc_tessface=True)\<close> stores in \<open>tessfaces\<close>\<close>
  uv_active :: bool         \<comment> \<open>\<open>bool(mesh.tessface_uv_textures.active)\<close>\<close>
  materials :: "material option list"
  me_vertices :: "vec3 list"
  use_auto_smooth :: bool
  auto_smooth_angle :: rat

record trs =
  \<comment> \<open>\<open>matrix.decompose()\<close>, the rotation as \<open>to_axis_angle()\<close>: axis, then angle\<close>
  loc :: vec3
  rot :: "rat \<times> rat \<times> rat \<times> rat"
  sca :: vec3

record obj =
  ob_ident :: nat
  ob_name :: str
  ob_type :: str
  visible :: bool           \<comment> \<open>\<open>obj.is_visible(scene)\<close>\<close>
  select :: bool
  is_modified :: bool       \<comment> \<open>\<open>obj.is_modified(scene, 'PREVIEW')\<close>\<close>
  data :: "mesh option"
  to_mesh :: "mesh option"  \<comment> \<open>\<open>obj.to_mesh(scene, use_mesh_modifiers, 'PREVIEW')\<close>\<close>
  bound_box :: "vec3 \<times> vec3 list"
    \<comment> \<open>the host's eight corners, the first one kept apart: the list is never empty\<close>
  dimensions :: vec3

record override =
  \<comment> \<open>an entry of the override table, each key present or not\<close>
  webotsType :: "str option"
  hingeJointParameters :: "str option option"
    \<comment> \<open>the entry's \<open>hingeJointParameters\<close>, and in it the \<open>axis\<close>, as \<open>%s\<close> prints it\<close>
  motorName :: "str option"
  positionSensorName :: "str option"

type_synonym user_data = "str \<rightharpoonup> override"

record scene =
  objects :: "obj list"
  world_ambient_color :: "vec3 option"   \<comment> \<open>\<open>scene.world.ambient_color\<close>, when there is a world\<close>
  parent :: "obj \<Rightarrow> obj option"
  derived :: "obj \<Rightarrow> (obj \<times> trs) list option"
    \<comment> \<open>\<open>create_derived_objects(scene, obj)[1]\<close>, each matrix made relative to \<open>obj\<close> and
       decomposed\<close>
  local_trs :: "obj option \<Rightarrow> obj \<Rightarrow> trs"
    \<comment> \<open>the decomposition of the matrix \<open>export_object\<close> hands to \<open>write_transform_begin\<close>
       for an object under the given exported parent\<close>

record config =
  use_selection :: bool
  use_mesh_modifiers :: bool
  path_mode :: str
  to_upper :: case_map
    \<comment> \<open>the uppercase mapping of the runtime's Unicode database\<close>
  set_order :: "image option list \<Rightarrow> image option list"
    \<comment> \<open>the order in which Python iterates a set holding these elements (given in
       insertion order); it depends on the hashes, which are addresses\<close>

section \<open>Unique names\<close>

text \<open>
  \<open>unique_name\<close> is Blender's (\<open>bpy_extras.io_utils\<close>); the exporter always calls it with
  \<open>clean_func=slugify\<close>, \<open>sep='_'\<close> and no \<open>name_max\<close>; the model keeps \<open>clean_func\<close> as an
  argument:
  \<^verbatim>\<open>
  def unique_name(key, name, name_dict, name_max=-1, clean_func=None, sep="."):
      name_new = name_dict.get(key)
      if name_new is None:
          count = 1
          name_dict_values = name_dict.values()
          name_new = name_new_orig = name if clean_func is None else clean_func(name)
          if name_max == -1:
              while name_new in name_dict_values:
                  name_new = "%s%s%03d" % (name_new_orig, sep, count)
                  count += 1
          else: ...
          name_dict[key] = name_new
      return name_new
  \<close>
  A dictionary keyed by host objects is an association list keyed by their identities, in
  insertion order.
\<close>

definition undec :: "str \<Rightarrow> nat" where
  "undec s = foldl (\<lambda>a c. 10 * a + (c - 48)) 0 s"

lemma undec_snoc: "undec (s @ [c]) = 10 * undec s + (c - 48)"
  by (simp add: undec_def)

lemma of_char_digit: "d < 10 \<Longrightarrow> digit d = 48 + d"
proof -
  assume "d < 10"
  then have "d \<in> {0, 1, 2, 3, 4, 5, 6, 7, 8, 9}" by auto
  then show ?thesis by (auto simp: digit_def u_def)
qed

lemma undec_dec: "undec (dec n) = n"
proof (induction n rule: dec.induct)
  case (1 n)
  show ?case
  proof (cases "n < 10")
    case True
    then show ?thesis by (subst dec.simps) (simp add: undec_def of_char_digit)
  next
    case False
    have "n mod 10 < 10" by simp
    then have d: "digit (n mod 10) = 48 + n mod 10"
      by (rule of_char_digit)
    from False 1 show ?thesis
      by (subst dec.simps) (simp add: undec_snoc d)
  qed
qed

lemma undec_zeros: "undec (replicate k 48 @ s) = undec s"
  by (induction k) (simp_all add: undec_def)

lemma undec_fmt_03d: "undec (fmt_03d n) = n"
  by (simp add: fmt_03d_def zfill_def undec_zeros undec_dec)

lemma inj_fmt_03d: "inj fmt_03d"
  by (rule inj_on_inverseI [where g = undec]) (rule undec_fmt_03d)

lemma finite_numbered: "finite {c. P c \<and> prefix @ fmt_03d c \<in> set vals}"
proof -
  have "inj (\<lambda>c. prefix @ fmt_03d c)"
    using inj_fmt_03d by (auto simp: inj_def)
  then have "finite ((\<lambda>c. prefix @ fmt_03d c) -` set vals)"
    by (intro finite_vimageI) simp_all
  then show ?thesis
    by (rule rev_finite_subset) auto
qed

text \<open>
  Both renaming loops of the exporter have the shape
  \<^verbatim>\<open>while name_new in used: name_new = prefix + '%03d' % count; count += 1\<close>.
  They end because the numbered names are pairwise different and \<open>used\<close> is finite.
\<close>

function numbered_loop :: "str \<Rightarrow> str list \<Rightarrow> str \<Rightarrow> nat \<Rightarrow> str" where
  "numbered_loop prefix vals name_new count =
     (if name_new \<in> set vals
      then numbered_loop prefix vals (prefix @ fmt_03d count) (Suc count)
      else name_new)"
  by pat_completeness auto
termination
proof (relation "measure (\<lambda>(prefix, vals, name_new, count).
    card {c. count \<le> c \<and> prefix @ fmt_03d c \<in> set vals}
      + (if name_new \<in> set vals then 1 else 0))", goal_cases)
  case 1
  show ?case by simp
next
  case (2 prefix vals name_new count)
  let ?A = "\<lambda>k. {c. k \<le> c \<and> prefix @ fmt_03d c \<in> set vals}"
  show ?case
  proof (cases "prefix @ fmt_03d count \<in> set vals")
    case True
    have "?A count = insert count (?A (Suc count))"
      using True by (auto simp: le_Suc_eq)
    moreover have "count \<notin> ?A (Suc count)" by simp
    ultimately have "card (?A count) = Suc (card (?A (Suc count)))"
      using finite_numbered [of "\<lambda>c. Suc count \<le> c" prefix vals] by simp
    with 2 True show ?thesis by simp
  next
    case False
    have "?A count = ?A (Suc count)"
      using False by (auto simp: Suc_le_eq order_less_le)
    with 2 False show ?thesis by simp
  qed
qed

definition unique_name ::
  "(str \<Rightarrow> str) \<Rightarrow> nat \<Rightarrow> str \<Rightarrow> (nat \<times> str) list \<Rightarrow> str \<times> (nat \<times> str) list" where
  \<comment> \<open>the name, and the dictionary as the call leaves it\<close>
  "unique_name clean_func key name name_dict =
     (case map_of name_dict key of
        Some name_new \<Rightarrow> (name_new, name_dict)
      | None \<Rightarrow>
          (let name_new_orig = clean_func name;
               name_new = numbered_loop (name_new_orig @ u ''_'') (map snd name_dict) name_new_orig 1
           in (name_new, name_dict @ [(key, name_new)])))"

text \<open>
  The state of one export run: the three identifier caches, the \<open>tag\<close> flags the exporter
  sets on meshes and images (all cleared when the export starts), and the names given to
  temporary meshes.
\<close>

record xstate =
  uuid_cache_object :: "(nat \<times> str) list"
  uuid_cache_mesh :: "(nat \<times> str) list"
  uuid_cache_image :: "(nat \<times> str) list"
  mesh_tag :: "nat list"
  image_tag :: "nat list"
  mesh_name_set :: "str list"

definition xstate_start :: xstate where
  "xstate_start = \<lparr> uuid_cache_object = [], uuid_cache_mesh = [], uuid_cache_image = [],
     mesh_tag = [], image_tag = [], mesh_name_set = [] \<rparr>"

section \<open>The header and the transform writer\<close>

definition write_header :: "str list" where
  "write_header =
     [u ''#VRML_SIM R2019a utf8\<newline>'',
      u ''WorldInfo {\<newline>'',
      u ''basicTimeStep 8\<newline>'',
      u ''}\<newline>'',
      u ''Viewpoint {\<newline>'',
      u ''orientation -0.5 -0.852 -0.159 0.71\<newline>'',
      u ''position -3.6 2.0 5.4\<newline>'',
      u ''}\<newline>'',
      u ''TexturedBackground {\<newline>'',
      u ''}\<newline>'',
      u ''TexturedBackgroundLight {\<newline>'',
      u ''}\<newline>'']"

text \<open>
  \<^verbatim>\<open>
  def write_transform_begin(obj, matrix, def_id):
      loc, rot, sca = matrix.decompose()
      rot = rot.to_axis_angle()
      rot = (*rot[0], rot[1])
      hingeJoint = False
      exportBoundingObject = False
      exportPhysics = False
      if def_id in user_data:
          fw('DEF %s ' % def_id)
          node_data = user_data[def_id]
          fw('%s {\n' % node_data['webotsType'])
          hingeJoint = node_data['webotsType'] == 'HingeJoint'
          exportPhysics = node_data['webotsType'] != 'Robot'
          exportBoundingObject = True
      elif nearly_equal(loc[0], 0.0) and nearly_equal(loc[1], 0.0) and nearly_equal(loc[2], 0.0)
              and nearly_equal(rot[3], 0.0) and nearly_equal(sca[0], 1.0)
              and nearly_equal(sca[1], 1.0) and nearly_equal(sca[2], 1.0):
          return (True, False)  # Skipped useless transform.
      else:
          if def_id is not None:
              fw('DEF %s ' % def_id)
          fw('Transform {\n')
      if hingeJoint: ... (see hinge_lines)
      fw('translation %.6f %.6f %.6f\n' % loc[:])
      fw('scale %.6f %.6f %.6f\n' % sca[:])
      fw('rotation %.6f %.6f %.6f %.6f\n' % rot)
      if exportPhysics:
          fw('physics Physics {\n')
          fw('}\n')
      if exportBoundingObject: ... (see bounding_lines)
      fw('children [\n')
      return (False, hingeJoint)
  \<close>
  Every caller passes a string as \<open>def_id\<close>. A missing key of the override entry raises
  \<open>KeyError\<close>, after the fragments written before the key is looked up.
\<close>

definition hinge_lines :: "override \<Rightarrow> vec3 \<Rightarrow> str list result" where
  \<comment> \<open>the \<open>if hingeJoint:\<close> block; the axis is looked up after two fragments are written\<close>
  "hinge_lines node_data l =
     (let anchor = [u ''jointParameters HingeJointParameters {\<newline>'',
                    u ''anchor '' @ fmt3 6 l @ u ''\<newline>'']
      in case hingeJointParameters node_data of
           None \<Rightarrow> Inl (KeyError, anchor)
         | Some None \<Rightarrow> Inl (KeyError, anchor)
         | Some (Some axis) \<Rightarrow>
             Inr (anchor
                  @ [u ''axis '' @ axis @ u ''\<newline>'',
                     u ''}\<newline>'',
                     u ''device [\<newline>'']
                  @ (case motorName node_data of
                       None \<Rightarrow> []
                     | Some n \<Rightarrow> [u ''RotationalMotor {\<newline>'',
                                  u ''name \"'' @ n @ u ''\"\<newline>'',
                                  u ''maxTorque 100000\<newline>'',
                                  u ''}\<newline>''])
                  @ (case positionSensorName node_data of
                       None \<Rightarrow> []
                     | Some n \<Rightarrow> [u ''PositionSensor {\<newline>'',
                                  u ''name \"'' @ n @ u ''\"\<newline>'',
                                  u ''}\<newline>''])
                  @ [u '']\<newline>'', u ''endPoint Solid {\<newline>'']
                  @ (case motorName node_data of
                       None \<Rightarrow> []
                     | Some n \<Rightarrow> [u ''name \"'' @ n @ u ''\"\<newline>''])))"

definition max_list :: "rat \<times> rat list \<Rightarrow> rat" where
  "max_list p = fold max (snd p) (fst p)"

definition min_list :: "rat \<times> rat list \<Rightarrow> rat" where
  "min_list p = fold min (snd p) (fst p)"

definition bound_mid :: "(vec3 \<Rightarrow> rat) \<Rightarrow> obj \<Rightarrow> rat" where
  \<comment> \<open>\<open>0.5 * (max([v[k] for v in obj.bound_box]) + min([v[k] for v in obj.bound_box]))\<close>\<close>
  "bound_mid coord ob =
     (let vs = (coord (fst (bound_box ob)), map coord (snd (bound_box ob)))
      in (1 / 2) * (max_list vs + min_list vs))"

definition bounding_lines :: "obj \<Rightarrow> str list" where
  "bounding_lines ob =
     [u ''boundingObject Transform {\<newline>'',
      u ''translation ''
        @ fmt3 6 (bound_mid fst ob, bound_mid (\<lambda>v. fst (snd v)) ob, bound_mid (\<lambda>v. snd (snd v)) ob)
        @ u ''\<newline>'',
      u ''children [\<newline>'',
      u ''Box {\<newline>'',
      u ''size '' @ fmt3 6 (dimensions ob) @ u ''\<newline>'',
      u ''}\<newline>'',
      u '']\<newline>'',
      u ''}\<newline>'']"

definition trs_lines :: "trs \<Rightarrow> str list" where
  "trs_lines m =
     [u ''translation '' @ fmt3 6 (loc m) @ u ''\<newline>'',
      u ''scale '' @ fmt3 6 (sca m) @ u ''\<newline>'',
      u ''rotation ''
        @ (case rot m of (x, y, z, a) \<Rightarrow> fmt3 6 (x, y, z) @ u '' '' @ fmt_f 6 a) @ u ''\<newline>'']"

definition is_identity :: "trs \<Rightarrow> bool" where
  \<comment> \<open>the condition of the \<open>elif\<close>\<close>
  "is_identity m =
     (case (loc m, rot m, sca m) of ((lx, ly, lz), (rx, ry, rz, ra), (sx, sy, sz)) \<Rightarrow>
        nearly_equal lx 0 \<and> nearly_equal ly 0 \<and> nearly_equal lz 0 \<and> nearly_equal ra 0
        \<and> nearly_equal sx 1 \<and> nearly_equal sy 1 \<and> nearly_equal sz 1)"

definition write_transform_begin ::
  "user_data \<Rightarrow> obj \<Rightarrow> trs \<Rightarrow> str \<Rightarrow> (str list \<times> bool \<times> bool) result" where
  \<comment> \<open>the lines written, then the pair the source returns\<close>
  "write_transform_begin user_data ob m def_id =
     (case user_data def_id of
        Some node_data \<Rightarrow>
          (case webotsType node_data of
             None \<Rightarrow> Inl (KeyError, [u ''DEF '' @ def_id @ u '' ''])
           | Some ty \<Rightarrow>
               (let hingeJoint = (ty = u ''HingeJoint'');
                    exportPhysics = (ty \<noteq> u ''Robot'');
                    opening = [u ''DEF '' @ def_id @ u '' '', ty @ u '' {\<newline>'']
                in case (if hingeJoint then hinge_lines node_data (loc m) else Inr []) of
                     Inl (e, ls) \<Rightarrow> Inl (e, opening @ ls)
                   | Inr hinge \<Rightarrow>
                       Inr (opening
                            @ hinge
                            @ trs_lines m
                            @ (if exportPhysics
                               then [u ''physics Physics {\<newline>'', u ''}\<newline>''] else [])
                            @ bounding_lines ob
                            @ [u ''children [\<newline>''],
                            False, hingeJoint)))
      | None \<Rightarrow>
          if is_identity m then Inr ([], True, False)
          else Inr ([u ''DEF '' @ def_id @ u '' '', u ''Transform {\<newline>'']
                    @ trs_lines m @ [u ''children [\<newline>''],
                    False, False))"

definition write_transform_end :: "bool \<Rightarrow> str list" where
  "write_transform_end supplementaryCurvyBracket =
     [u '']\<newline>'', u ''}\<newline>''] @ (if supplementaryCurvyBracket then [u ''}\<newline>''] else [])"

section \<open>The image writer\<close>

text \<open>
  \<^verbatim>\<open>
  def write_image_texture(image):
      image_id = unique_name(image, IM_ + image.name, uuid_cache_image, clean_func=slugify, sep='_')
      if image.tag:
          fw('texture USE %s\n' % (image_id))
      else:
          image.tag = True
          fw('texture ')
          fw('DEF %s ' % image_id)
          fw('ImageTexture {\n')
          ...
          images = [filepath_ref, filepath_base]
          if path_mode != 'RELATIVE':
              images.append(filepath_full)
          images = [f.replace('\\', '/') for f in images]
          images = [f for i, f in enumerate(images) if f not in images[:i]]
          fw('url [ "%s" ]\n' % ' '.join(['"%s"' % escape(f) for f in images]))
          fw('}\n')
  \<close>
\<close>

definition escape :: "str \<Rightarrow> str" where
  \<comment> \<open>\<open>xml.sax.saxutils.escape\<close>\<close>
  "escape s = concat (map (\<lambda>c. if c = of_char CHR ''&'' then u ''&amp;''
                               else if c = of_char CHR ''>'' then u ''&gt;''
                               else if c = of_char CHR ''<'' then u ''&lt;'' else [c]) s)"

fun first_occurrences :: "str list \<Rightarrow> str list \<Rightarrow> str list" where
  \<comment> \<open>\<open>[f for i, f in enumerate(images) if f not in images[:i]]\<close>, with the elements seen\<close>
  "first_occurrences seen [] = []"
| "first_occurrences seen (f # fs) =
     (if f \<in> set seen then first_occurrences seen fs
      else f # first_occurrences (seen @ [f]) fs)"

fun join :: "str \<Rightarrow> str list \<Rightarrow> str" where
  "join sep [] = []"
| "join sep [x] = x"
| "join sep (x # y # ys) = x @ sep @ join sep (y # ys)"

definition image_urls :: "str \<Rightarrow> image \<Rightarrow> str list" where
  "image_urls mode img =
     first_occurrences []
       (map (map (\<lambda>c. if c = of_char CHR 0x5C then of_char CHR ''/'' else c))
          ([filepath_ref img, filepath_base img]
           @ (if mode \<noteq> u ''RELATIVE'' then [filepath_full img] else [])))"

definition write_image_texture :: "config \<Rightarrow> image \<Rightarrow> xstate \<Rightarrow> str list \<times> xstate" where
  "write_image_texture cfg img st =
     (case unique_name (slugify (to_upper cfg)) (im_ident img) (u ''IM_'' @ im_name img)
             (uuid_cache_image st) of
        (image_id, cache) \<Rightarrow>
          if im_ident img \<in> set (image_tag st)
          then ([u ''texture USE '' @ image_id @ u ''\<newline>''], st\<lparr> uuid_cache_image := cache \<rparr>)
          else ([u ''texture '',
                 u ''DEF '' @ image_id @ u '' '',
                 u ''ImageTexture {\<newline>'',
                 u ''url [ \"''
                   @ join (u '' '') (map (\<lambda>f. u ''\"'' @ escape f @ u ''\"'') (image_urls (path_mode cfg) img))
                   @ u ''\" ]\<newline>'',
                 u ''}\<newline>''],
                st\<lparr> uuid_cache_image := cache, image_tag := im_ident img # image_tag st \<rparr>))"

section \<open>The geometry writer\<close>

text \<open>
  \<open>write_indexed_face_set\<close> (source lines 156 to 332), in the order of the source: the
  image of each material, the image of each face, the face groups, then one \<open>Shape\<close> for
  each group that is not empty.
\<close>

fun first_image :: "tex option option list \<Rightarrow> image option" where
  \<comment> \<open>the loop over \<open>material.texture_slots\<close>, left at the first slot that has an image\<close>
  "first_image [] = None"
| "first_image (None # slots) = first_image slots"
| "first_image (Some None # slots) = first_image slots"
| "first_image (Some (Some t) # slots) =
     (if tex_type t = u ''IMAGE''
      then (case tex_image t of Some img \<Rightarrow> Some img | None \<Rightarrow> first_image slots)
      else first_image slots)"

definition material_image :: "material option \<Rightarrow> image option" where
  "material_image m = (case m of None \<Rightarrow> None | Some mat \<Rightarrow> first_image (texture_slots mat))"

definition material_use_face_texture :: "material option \<Rightarrow> bool" where
  \<comment> \<open>\<open>getattr(material, 'use_face_texture', True)\<close>\<close>
  "material_use_face_texture m = (case m of None \<Rightarrow> True | Some mat \<Rightarrow> use_face_texture mat)"

definition faces_of :: "mesh \<Rightarrow> face list" where
  \<comment> \<open>\<open>mesh.tessfaces\<close> after
     \<open>if not mesh.tessfaces and mesh.polygons: mesh.update(calc_tessface=True)\<close>\<close>
  "faces_of me =
     (if tessfaces me = [] \<and> polygons me \<noteq> 0 then calc_tessface me else tessfaces me)"

definition mesh_materials_of :: "mesh \<Rightarrow> material option list" where
  "mesh_materials_of me = (if materials me = [] then [None] else materials me)"

fun sequence :: "(error + 'a) list \<Rightarrow> error + 'a list" where
  \<comment> \<open>a list comprehension whose elements may raise: the first error ends it\<close>
  "sequence [] = Inr []"
| "sequence (Inl e # xs) = Inl e"
| "sequence (Inr x # xs) = (case sequence xs of Inl e \<Rightarrow> Inl e | Inr ys \<Rightarrow> Inr (x # ys))"

definition mesh_faces_image ::
  "config \<Rightarrow> bool \<Rightarrow> material option list \<Rightarrow> face list
    \<Rightarrow> error + (image option list \<times> image option list)" where
  \<comment> \<open>\<open>mesh_faces_image\<close>, and \<open>mesh_faces_image_unique\<close> in the order the set is iterated;
     a material index beyond the materials raises \<open>IndexError\<close>\<close>
  "mesh_faces_image cfg is_uv mesh_materials mesh_faces =
     (let mesh_material_images = map material_image mesh_materials;
          mesh_materials_use_face_texture = map material_use_face_texture mesh_materials
      in if is_uv \<and> True \<in> set mesh_materials_use_face_texture
         then (case sequence (map (\<lambda>f.
                       if material_index f < length mesh_materials
                       then Inr (if mesh_materials_use_face_texture ! material_index f
                                 then fuv_image f
                                 else mesh_material_images ! material_index f)
                       else Inl IndexError) mesh_faces) of
                 Inl e \<Rightarrow> Inl e
               | Inr imgs \<Rightarrow> Inr (imgs, set_order cfg imgs))
         else if 1 < card (set mesh_material_images \<union> {None})
         then (case sequence (map (\<lambda>f.
                       if material_index f < length mesh_materials
                       then Inr (mesh_material_images ! material_index f)
                       else Inl IndexError) mesh_faces) of
                 Inl e \<Rightarrow> Inl e
               | Inr imgs \<Rightarrow> Inr (imgs, set_order cfg imgs))
         else Inr (replicate (length mesh_faces) None, [None]))"

type_synonym face_groups = "((nat \<times> image option) \<times> nat list) list"

definition face_groups_init :: "nat \<Rightarrow> image option list \<Rightarrow> face_groups" where
  \<comment> \<open>\<open>for material_index in range(n): for image in unique: face_groups[material_index, image] = []\<close>;
     the dictionary is an association list in insertion order\<close>
  "face_groups_init n unique =
     fold (\<lambda>k fg. AList.update k [] fg)
       (concat (map (\<lambda>mat_index. map (Pair mat_index) unique) [0..<n])) []"

fun face_groups_fill :: "(nat \<times> nat \<times> image option) list \<Rightarrow> face_groups \<Rightarrow> error + face_groups" where
  \<comment> \<open>\<open>for i, (material_index, image) in enumerate(zip(...)):
       face_groups[material_index, image].append(i)\<close>\<close>
  "face_groups_fill [] fg = Inr fg"
| "face_groups_fill ((i, k) # rest) fg =
     (case map_of fg k of
        None \<Rightarrow> Inl KeyError
      | Some g \<Rightarrow> face_groups_fill rest (AList.update k (g @ [i]) fg))"

definition group_key :: "(nat \<times> image option) \<times> nat list \<Rightarrow> nat \<times> str" where
  \<comment> \<open>\<open>lambda m: (m[0][0], getattr(m[0][1], 'name', ''))\<close>\<close>
  "group_key m = (fst (fst m), case snd (fst m) of None \<Rightarrow> [] | Some img \<Rightarrow> im_name img)"

definition material_lines :: "vec3 option \<Rightarrow> material \<Rightarrow> str list" where
  "material_lines world mat =
     (case diffuse_color mat of (dr, dg, db) \<Rightarrow>
      case (case world of
              Some (wr, wg, wb) \<Rightarrow>
                (ambient mat * 2 * wr, ambient mat * 2 * wg, ambient mat * 2 * wb)
            | None \<Rightarrow> (0, 0, 0)) of (ar, ag, ab) \<Rightarrow>
        [u ''baseColor '' @ fmt3 3 (clamp_color (dr, dg, db)) @ u ''\<newline>'',
         u ''emissiveColor ''
           @ fmt3 3 (clamp_color ((dr * emit mat + ar) / 2, (dg * emit mat + ag) / 2,
                                  (db * emit mat + ab) / 2)) @ u ''\<newline>'',
         u ''metalness 0\<newline>'',
         u ''roughness 0.5\<newline>''])"

fun tex_coord_index :: "nat \<Rightarrow> fverts list \<Rightarrow> str list" where
  "tex_coord_index j [] = []"
| "tex_coord_index j (Quad a b c d # fs) =
     (dec j @ u '' '' @ dec (j + 1) @ u '' '' @ dec (j + 2) @ u '' '' @ dec (j + 3) @ u '' -1 '')
       # tex_coord_index (j + 4) fs"
| "tex_coord_index j (Tri a b c # fs) =
     (dec j @ u '' '' @ dec (j + 1) @ u '' '' @ dec (j + 2) @ u '' -1 '') # tex_coord_index (j + 3) fs"

definition coord_index :: "fverts \<Rightarrow> str" where
  "coord_index fv =
     (case fv of
        Tri a b c \<Rightarrow> dec a @ u '' '' @ dec b @ u '' '' @ dec c @ u '' -1 ''
      | Quad a b c d \<Rightarrow> dec a @ u '' '' @ dec b @ u '' '' @ dec c @ u '' '' @ dec d @ u '' -1 '')"

definition coord_lines :: "mesh \<Rightarrow> str \<Rightarrow> bool \<Rightarrow> str list" where
  "coord_lines me mesh_id_coords is_coords_written =
     (if is_coords_written then [u ''coord USE '' @ mesh_id_coords @ u ''\<newline>'']
      else [u ''coord '', u ''DEF '' @ mesh_id_coords @ u '' '', u ''Coordinate {\<newline>'',
            u ''point [\<newline>'']
           @ map (\<lambda>v. fmt3 6 v @ u '' '') (me_vertices me)
           @ [u ''\<newline>'', u '']\<newline>'', u ''}\<newline>''])"

definition geometry_lines ::
  "mesh \<Rightarrow> face list \<Rightarrow> str \<Rightarrow> bool \<Rightarrow> bool \<Rightarrow> nat list \<Rightarrow> str list" where
  \<comment> \<open>from \<open>fw('geometry IndexedFaceSet {\n')\<close> to the end of the \<open>Shape\<close>; an index of a
     face group is an index of \<open>mesh_faces\<close>\<close>
  "geometry_lines me mesh_faces mesh_id_coords is_uv is_coords_written face_group =
     [u ''geometry IndexedFaceSet {\<newline>'']
     @ (if list_ex (\<lambda>i. use_smooth (mesh_faces ! i)) face_group
        then [u ''creaseAngle ''
                @ fmt_f 4 (if use_auto_smooth me then auto_smooth_angle me else 1) @ u ''\<newline>'']
        else [])
     @ (if is_uv
        then [u ''texCoordIndex [\<newline>'']
             @ tex_coord_index 0 (map (\<lambda>i. vertices (mesh_faces ! i)) face_group)
             @ [u ''\<newline>'', u '']\<newline>'']
        else [])
     @ [u ''coordIndex [\<newline>'']
     @ map (\<lambda>i. coord_index (vertices (mesh_faces ! i))) face_group
     @ [u ''\<newline>'', u '']\<newline>'']
     @ coord_lines me mesh_id_coords is_coords_written
     @ (if is_uv
        then [u ''texCoord TextureCoordinate {\<newline>'', u ''point [\<newline>'']
             @ concat (map (\<lambda>i. map (\<lambda>uv. fmt_f 4 (fst uv) @ u '' '' @ fmt_f 4 (snd uv) @ u '' '')
                                    (fuv_uv (mesh_faces ! i))) face_group)
             @ [u ''\<newline>'', u '']\<newline>'', u ''}\<newline>'']
        else [])
     @ [u ''}\<newline>'', u ''}\<newline>'']"

definition write_shape ::
  "config \<Rightarrow> vec3 option \<Rightarrow> mesh \<Rightarrow> face list \<Rightarrow> material option list \<Rightarrow> str \<Rightarrow> bool \<Rightarrow> bool
    \<Rightarrow> (nat \<times> image option) \<times> nat list \<Rightarrow> xstate \<Rightarrow> str list \<times> xstate" where
  "write_shape cfg world me mesh_faces mesh_materials mesh_id_coords is_uv is_coords_written item st =
     (case item of ((mat_index, image_opt), face_group) \<Rightarrow>
      case (case image_opt of
              None \<Rightarrow> ([], st)
            | Some img \<Rightarrow> write_image_texture cfg img st) of (texture, st') \<Rightarrow>
        ([u ''Shape {\<newline>'', u ''appearance PBRAppearance {\<newline>'']
         @ texture
         @ (case mesh_materials ! mat_index of
              None \<Rightarrow> []
            | Some mat \<Rightarrow> material_lines world mat)
         @ [u ''}\<newline>'']
         @ geometry_lines me mesh_faces mesh_id_coords is_uv is_coords_written face_group,
         st'))"

fun write_shapes ::
  "config \<Rightarrow> vec3 option \<Rightarrow> mesh \<Rightarrow> face list \<Rightarrow> material option list \<Rightarrow> str \<Rightarrow> bool
    \<Rightarrow> face_groups \<Rightarrow> bool \<Rightarrow> xstate \<Rightarrow> str list \<times> xstate" where
  \<comment> \<open>the loop over \<open>face_groups_items\<close>, with \<open>is_coords_written\<close>\<close>
  "write_shapes cfg world me mesh_faces mesh_materials cid is_uv [] written st = ([], st)"
| "write_shapes cfg world me mesh_faces mesh_materials cid is_uv (item # items) written st =
     (if snd item = []
      then write_shapes cfg world me mesh_faces mesh_materials cid is_uv items written st
      else (case write_shape cfg world me mesh_faces mesh_materials cid is_uv written item st of
              (ls, st1) \<Rightarrow>
                (case write_shapes cfg world me mesh_faces mesh_materials cid is_uv items True st1 of
                   (ls', st2) \<Rightarrow> (ls @ ls', st2))))"

definition face_groups_items :: "config \<Rightarrow> mesh \<Rightarrow> error + face_groups" where
  \<comment> \<open>the sorted items of \<open>face_groups\<close>; Python's sort is stable, and so is \<open>sort_key\<close>\<close>
  "face_groups_items cfg me =
     (let mesh_materials = mesh_materials_of me; mesh_faces = faces_of me
      in case mesh_faces_image cfg (uv_active me) mesh_materials mesh_faces of
           Inl e \<Rightarrow> Inl e
         | Inr (imgs, unique) \<Rightarrow>
             (case face_groups_fill
                     (zip [0..<length mesh_faces] (zip (map material_index mesh_faces) imgs))
                     (face_groups_init (length mesh_materials) unique) of
                Inl e \<Rightarrow> Inl e
              | Inr fg \<Rightarrow> Inr (sort_key group_key fg)))"

definition write_mesh ::
  "config \<Rightarrow> vec3 option \<Rightarrow> mesh \<Rightarrow> str \<Rightarrow> xstate \<Rightarrow> (str list \<times> xstate) result" where
  \<comment> \<open>the \<open>else\<close> branch of \<open>if mesh.tag\<close>, after \<open>mesh.tag = True\<close>; the faces are grouped
     before the first \<open>Shape\<close> is written\<close>
  "write_mesh cfg world me mesh_id st =
     (case face_groups_items cfg me of
        Inl e \<Rightarrow> Inl (e, [])
      | Inr items \<Rightarrow>
          Inr (write_shapes cfg world me (faces_of me) (mesh_materials_of me)
                 (u ''COORDS_'' @ mesh_id) (uv_active me) items False st))"

definition write_indexed_face_set ::
  "config \<Rightarrow> user_data \<Rightarrow> vec3 option \<Rightarrow> obj \<Rightarrow> mesh \<Rightarrow> trs \<Rightarrow> xstate
    \<Rightarrow> (str list \<times> xstate) result" where
  "write_indexed_face_set cfg user_data world ob me m st =
     (case unique_name (slugify (to_upper cfg)) (ob_ident ob) (u ''OB_'' @ ob_name ob)
             (uuid_cache_object st) of
        (obj_id, cache_object) \<Rightarrow>
      case unique_name (slugify (to_upper cfg)) (me_ident me) (u ''ME_'' @ me_name me)
             (uuid_cache_mesh st) of
        (mesh_id, cache_mesh) \<Rightarrow>
      let st1 = st\<lparr> uuid_cache_object := cache_object, uuid_cache_mesh := cache_mesh \<rparr>
      in if faces_of me = [] then Inr ([], st1)
         else
           (case write_transform_begin user_data ob m (obj_id @ u ''_IFS'' @ u ''_TRANSFORM'') of
              Inl e \<Rightarrow> Inl e
            | Inr (begin_lines, skipUselessTransform, supplementaryCurvyBracket) \<Rightarrow>
                (case (if me_ident me \<in> set (mesh_tag st1)
                       then Inr ([u ''USE '' @ u ''GROUP_'' @ mesh_id @ u ''\<newline>''], st1)
                       else write_mesh cfg world me mesh_id
                              (st1\<lparr> mesh_tag := me_ident me # mesh_tag st1 \<rparr>)) of
                   Inl (e, ls) \<Rightarrow> Inl (e, begin_lines @ ls)
                 | Inr (body, st2) \<Rightarrow>
                     Inr (begin_lines @ body
                          @ (if \<not> skipUselessTransform
                             then write_transform_end supplementaryCurvyBracket else []),
                          st2))))"

section \<open>The hierarchy builder\<close>

text \<open>
  \<^verbatim>\<open>
  def build_hierarchy(objects):
      objects_set = set(objects)
      par_lookup = {}
      def test_parent(parent):
          while (parent is not None) and (parent not in objects_set):
              parent = parent.parent
          return parent
      for obj in objects:
          par_lookup.setdefault(test_parent(obj.parent), []).append((obj, []))
      for parent, children in par_lookup.items():
          for obj, subchildren in children:
              subchildren[:] = par_lookup.get(obj, [])
      return par_lookup.get(None, [])
  \<close>
  The function builds its result by mutation of shared lists: the tuple \<open>(obj, [])\<close> made
  for the \<open>i\<close>-th candidate holds a list of its own, the lists of \<open>par_lookup\<close> hold
  references to these tuples, and the second loop fills the list of each tuple with
  references to other tuples. The model names the tuple of the \<open>i\<close>-th candidate by \<open>i\<close> and
  keeps the contents of its list in a store, a function from \<open>i\<close> to a list of tuple names.
  The value returned is read from the store at the end.

  \<open>test_parent\<close> does not return when the parents form a cycle outside the candidates:
  not returning is the value \<open>None\<close>.
\<close>

datatype 'o entry = Entry 'o "'o entry list"

partial_function (option) test_parent ::
  "('o \<Rightarrow> 'o option) \<Rightarrow> 'o list \<Rightarrow> 'o option \<Rightarrow> 'o option option" where
  "test_parent par objs p =
     (case p of
        None \<Rightarrow> Some None
      | Some x \<Rightarrow> if x \<in> set objs then Some (Some x) else test_parent par objs (par x))"

declare test_parent.simps [code]

definition dict_get :: "('k \<times> 'v list) list \<Rightarrow> 'k \<Rightarrow> 'v list" where
  \<comment> \<open>\<open>d.get(k, [])\<close>\<close>
  "dict_get d k = (case map_of d k of None \<Rightarrow> [] | Some v \<Rightarrow> v)"

fun par_lookup_build ::
  "('o \<Rightarrow> 'o option) \<Rightarrow> 'o list \<Rightarrow> (nat \<times> 'o) list \<Rightarrow> ('o option \<times> nat list) list
    \<Rightarrow> ('o option \<times> nat list) list option" where
  \<comment> \<open>the first loop, over the candidates with their positions\<close>
  "par_lookup_build par objs [] par_lookup = Some par_lookup"
| "par_lookup_build par objs ((i, ob) # rest) par_lookup =
     (case test_parent par objs (par ob) of
        None \<Rightarrow> None
      | Some k \<Rightarrow>
          par_lookup_build par objs rest (AList.update k (dict_get par_lookup k @ [i]) par_lookup))"

definition fill_subchildren ::
  "'o list \<Rightarrow> ('o option \<times> nat list) list \<Rightarrow> nat \<Rightarrow> nat list" where
  \<comment> \<open>the second loop: the store it leaves\<close>
  "fill_subchildren objs par_lookup =
     fold (\<lambda>item store.
             fold (\<lambda>i store. store(i := dict_get par_lookup (Some (objs ! i)))) (snd item) store)
       par_lookup (\<lambda>i. [])"

fun reify :: "nat \<Rightarrow> 'o list \<Rightarrow> (nat \<Rightarrow> nat list) \<Rightarrow> nat \<Rightarrow> 'o entry option" where
  \<comment> \<open>the nested lists below a tuple, read from the store; \<open>None\<close> when they are nested
     deeper than the fuel\<close>
  "reify 0 objs store i = None"
| "reify (Suc n) objs store i =
     map_option (Entry (objs ! i)) (those (map (reify n objs store) (store i)))"

definition build_hierarchy :: "('o \<Rightarrow> 'o option) \<Rightarrow> 'o list \<Rightarrow> 'o entry list option" where
  \<comment> \<open>\<open>None\<close>: \<open>test_parent\<close> does not return, or the lists returned contain themselves
     (with as many levels as candidates, plus one, a tuple is met twice on a path)\<close>
  "build_hierarchy par objs =
     (case par_lookup_build par objs (zip [0..<length objs] objs) [] of
        None \<Rightarrow> None
      | Some par_lookup \<Rightarrow>
          those (map (reify (Suc (length objs)) objs (fill_subchildren objs par_lookup))
                   (dict_get par_lookup None)))"

section \<open>The scene walker\<close>

text \<open>
  \<open>export_object\<close> (source lines 365 to 426), \<open>export_main\<close> and \<open>export\<close>. A temporary mesh
  (\<open>do_remove\<close>) is renamed before it is written:
  \<^verbatim>\<open>
  me.name = obj.name.rstrip('1234567890').rstrip('.')
  me_name_new = me_name_org = me.name
  count = 0
  while me_name_new in mesh_name_set:
      me.name = '%.17s.%03d' % (me_name_org, count)
      me_name_new = me.name
      count += 1
  mesh_name_set.add(me_name_new)
  \<close>
  The model takes the host to store the name it is given.
\<close>

definition rstrip :: "str \<Rightarrow> str \<Rightarrow> str" where
  "rstrip chars s = rev (dropWhile (\<lambda>c. c \<in> set chars) (rev s))"

definition temp_mesh_name :: "str list \<Rightarrow> obj \<Rightarrow> str" where
  "temp_mesh_name used ob =
     (let me_name_org = rstrip (u ''.'') (rstrip (u ''1234567890'') (ob_name ob))
      in numbered_loop (take 17 me_name_org @ u ''.'') used me_name_org 0)"

definition derived_mesh :: "config \<Rightarrow> obj \<Rightarrow> mesh option \<times> bool" where
  \<comment> \<open>\<open>me\<close> and \<open>do_remove\<close>\<close>
  "derived_mesh cfg ob =
     (if ob_type ob \<noteq> u ''MESH'' \<or> (use_mesh_modifiers cfg \<and> is_modified ob)
      then (to_mesh ob, True) else (data ob, False))"

definition export_derived ::
  "config \<Rightarrow> user_data \<Rightarrow> vec3 option \<Rightarrow> obj \<times> trs \<Rightarrow> xstate
    \<Rightarrow> (str list \<times> xstate) result" where
  \<comment> \<open>the body of the loop over the derived objects\<close>
  "export_derived cfg user_data world item st =
     (case item of (ob, obj_matrix) \<Rightarrow>
        if ob_type ob \<in> {u ''MESH'', u ''CURVE'', u ''SURFACE'', u ''FONT''}
        then (case derived_mesh cfg ob of
                (None, do_remove) \<Rightarrow> Inr ([], st)
              | (Some me, do_remove) \<Rightarrow>
                  if do_remove
                  then (let me_name_new = temp_mesh_name (mesh_name_set st) ob
                        in write_indexed_face_set cfg user_data world ob
                             (me\<lparr> me_name := me_name_new \<rparr>) obj_matrix
                             (st\<lparr> mesh_name_set := List.insert me_name_new (mesh_name_set st) \<rparr>))
                  else write_indexed_face_set cfg user_data world ob me obj_matrix st)
        else Inr ([], st))"

fun export_all_derived ::
  "config \<Rightarrow> user_data \<Rightarrow> vec3 option \<Rightarrow> (obj \<times> trs) list \<Rightarrow> xstate
    \<Rightarrow> (str list \<times> xstate) result" where
  "export_all_derived cfg user_data world [] st = Inr ([], st)"
| "export_all_derived cfg user_data world (item # items) st =
     (case export_derived cfg user_data world item st of
        Inl e \<Rightarrow> Inl e
      | Inr (ls, st1) \<Rightarrow>
          (case export_all_derived cfg user_data world items st1 of
             Inl (e, ls') \<Rightarrow> Inl (e, ls @ ls')
           | Inr (ls', st2) \<Rightarrow> Inr (ls @ ls', st2)))"

fun export_object ::
  "config \<Rightarrow> user_data \<Rightarrow> scene \<Rightarrow> obj option \<Rightarrow> obj entry \<Rightarrow> xstate
    \<Rightarrow> (str list \<times> xstate) result"
and export_objects ::
  "config \<Rightarrow> user_data \<Rightarrow> scene \<Rightarrow> obj option \<Rightarrow> obj entry list \<Rightarrow> xstate
    \<Rightarrow> (str list \<times> xstate) result" where
  "export_object cfg user_data sc obj_main_parent (Entry obj_main obj_children) st =
     (case unique_name (slugify (to_upper cfg)) (ob_ident obj_main) (ob_name obj_main)
             (uuid_cache_object st) of
        (obj_main_id, cache_object) \<Rightarrow>
      case write_transform_begin user_data obj_main (local_trs sc obj_main_parent obj_main)
             (obj_main_id @ u ''_TRANSFORM'') of
        Inl e \<Rightarrow> Inl e
      | Inr (begin_lines, skipUselessTransform, supplementaryCurvyBracket) \<Rightarrow>
      case export_all_derived cfg user_data (world_ambient_color sc)
             (case derived sc obj_main of None \<Rightarrow> [] | Some ds \<Rightarrow> ds)
             (st\<lparr> uuid_cache_object := cache_object \<rparr>) of
        Inl (e, ls) \<Rightarrow> Inl (e, begin_lines @ ls)
      | Inr (derived_lines, st1) \<Rightarrow>
      case export_objects cfg user_data sc (Some obj_main) obj_children st1 of
        Inl (e, ls) \<Rightarrow> Inl (e, begin_lines @ derived_lines @ ls)
      | Inr (children_lines, st2) \<Rightarrow>
          Inr (begin_lines @ derived_lines @ children_lines
               @ (if \<not> skipUselessTransform
                  then write_transform_end supplementaryCurvyBracket else []),
               st2))"
| "export_objects cfg user_data sc p [] st = Inr ([], st)"
| "export_objects cfg user_data sc p (e # es) st =
     (case export_object cfg user_data sc p e st of
        Inl err \<Rightarrow> Inl err
      | Inr (ls, st1) \<Rightarrow>
          (case export_objects cfg user_data sc p es st1 of
             Inl (err, ls') \<Rightarrow> Inl (err, ls @ ls')
           | Inr (ls', st2) \<Rightarrow> Inr (ls @ ls', st2)))"

definition selected_objects :: "config \<Rightarrow> scene \<Rightarrow> obj list" where
  "selected_objects cfg sc =
     (if use_selection cfg then filter (\<lambda>ob. visible ob \<and> select ob) (objects sc)
      else filter visible (objects sc))"

definition export ::
  "config \<Rightarrow> user_data \<Rightarrow> scene \<Rightarrow> str list result option" where
  \<comment> \<open>the lines \<open>export\<close> passes to \<open>fw\<close>; \<open>None\<close> when \<open>build_hierarchy\<close> does not return\<close>
  "export cfg user_data sc =
     (case build_hierarchy (parent sc) (selected_objects cfg sc) of
        None \<Rightarrow> None
      | Some objects_hierarchy \<Rightarrow>
          Some (case export_objects cfg user_data sc None objects_hierarchy xstate_start of
                  Inl (e, ls) \<Rightarrow> Inl (e, write_header @ ls)
                | Inr (ls, st) \<Rightarrow> Inr (write_header @ ls)))"

definition written :: "str list \<Rightarrow> str" where
  \<comment> \<open>the text of the file once these lines went through \<open>fw\<close>\<close>
  "written ls = file_text (fw_all ls fw_start)"

text \<open>
  \<^verbatim>\<open>
  def save(context, filepath, *, use_selection=True, use_mesh_modifiers=False,
           user_data_path='', global_matrix=None, path_mode='AUTO'):
      bpy.path.ensure_ext(filepath, '.wbt')
      if bpy.ops.object.mode_set.poll():
          bpy.ops.object.mode_set(mode='OBJECT')
      file = open(filepath, 'w', encoding='utf-8')
      if global_matrix is None:
          global_matrix = mathutils.Matrix()
      user_data = {}
      if user_data_path and os.path.isfile(user_data_path):
          with open(user_data_path) as f:
              user_data = json.load(f)
      export(file, global_matrix, context.scene, ...)
      return {'FINISHED'}
  \<close>
  The files of the host: whether \<open>open(filepath, 'w')\<close> succeeds, \<open>os.path.isfile\<close>, and
  what opening and parsing the override table gives. The settings of \<open>save\<close> are in the
  configuration.
\<close>

record files =
  writable :: "str \<Rightarrow> bool"
  isfile :: "str \<Rightarrow> bool"
  json_load :: "str \<Rightarrow> error + user_data"

definition load_user_data :: "files \<Rightarrow> str \<Rightarrow> error + user_data" where
  "load_user_data fs user_data_path =
     (if user_data_path \<noteq> [] \<and> isfile fs user_data_path then json_load fs user_data_path
      else Inr Map.empty)"

definition save ::
  "files \<Rightarrow> config \<Rightarrow> scene \<Rightarrow> str \<Rightarrow> str \<Rightarrow> ((error \<times> str) + (str \<times> str)) option" where
  \<comment> \<open>the value returned or the exception raised, each with the text \<open>save\<close> has written to
     the file; the file is opened before the override table is read, and the table is read
     before \<open>export\<close> is called\<close>
  "save fs cfg sc filepath user_data_path =
     (if \<not> writable fs filepath then Some (Inl (OSError, []))
      else case load_user_data fs user_data_path of
             Inl e \<Rightarrow> Some (Inl (e, []))
           | Inr user_data \<Rightarrow>
               (case export cfg user_data sc of
                  None \<Rightarrow> None
                | Some (Inl (e, ls)) \<Rightarrow> Some (Inl (e, written ls))
                | Some (Inr ls) \<Rightarrow> Some (Inr (u ''FINISHED'', written ls))))"

section \<open>Example data\<close>

text \<open>Small scenes on which the theorems below are instantiated.\<close>

definition ident_trs :: trs where
  "ident_trs = \<lparr> loc = (0, 0, 0), rot = (0, 0, 1, 0), sca = (1, 1, 1) \<rparr>"

definition near_identity :: trs where
  \<comment> \<open>the scale \<open>1 - 2^-20\<close> on the first axis; \<open>a * 10 ** 5\<close> is exact on it in binary
     floating point as well\<close>
  "near_identity = \<lparr> loc = (0, 0, 0), rot = (0, 0, 1, 0), sca = (1048575 / 1048576, 1, 1) \<rparr>"

definition cfg0 :: config where
  "cfg0 = \<lparr> use_selection = True, use_mesh_modifiers = False, path_mode = u ''AUTO'',
            to_upper = latin1_upper, set_order = remdups \<rparr>"

definition no_files :: files where
  "no_files = \<lparr> writable = (\<lambda>p. True), isfile = (\<lambda>p. False),
                json_load = (\<lambda>p. Inl OSError) \<rparr>"

definition broken_table :: files where
  \<comment> \<open>a file \<open>overrides.json\<close> that is not JSON\<close>
  "broken_table = \<lparr> writable = (\<lambda>p. True), isfile = (\<lambda>p. p = u ''overrides.json''),
                    json_load = (\<lambda>p. Inl JSONDecodeError) \<rparr>"

definition plain :: "vec3 \<Rightarrow> material" where
  \<comment> \<open>a material without texture\<close>
  "plain col = \<lparr> diffuse_color = col, ambient = 1, emit = 0, use_face_texture = False,
                 texture_slots = [] \<rparr>"

definition quad_face :: "nat \<Rightarrow> nat \<Rightarrow> nat \<Rightarrow> nat \<Rightarrow> face" where
  "quad_face a b c d = \<lparr> vertices = Quad a b c d, material_index = 0, use_smooth = False,
                         fuv_image = None, fuv_uv = [] \<rparr>"

definition cube_faces :: "face list" where
  "cube_faces = [quad_face 0 1 3 2, quad_face 4 6 7 5, quad_face 0 4 5 1,
                 quad_face 2 3 7 6, quad_face 0 2 6 4, quad_face 1 5 7 3]"

definition cube_corners :: "vec3 list" where
  "cube_corners = [(- 1, - 1, - 1), (- 1, - 1, 1), (- 1, 1, - 1), (- 1, 1, 1),
                   (1, - 1, - 1), (1, - 1, 1), (1, 1, - 1), (1, 1, 1)]"

definition cube_mesh :: "vec3 \<Rightarrow> mesh" where
  \<comment> \<open>the cube of side 2 around the origin, with one material\<close>
  "cube_mesh col = \<lparr> me_ident = 2, me_name = u ''Cube'', tessfaces = cube_faces, polygons = 6,
                     calc_tessface = cube_faces, uv_active = False, materials = [Some (plain col)],
                     me_vertices = cube_corners, use_auto_smooth = False, auto_smooth_angle = 0 \<rparr>"

definition cube :: "nat \<Rightarrow> str \<Rightarrow> vec3 \<Rightarrow> obj" where
  "cube i name col = \<lparr> ob_ident = i, ob_name = name, ob_type = u ''MESH'', visible = True,
                       select = True, is_modified = False, data = Some (cube_mesh col),
                       to_mesh = None, bound_box = (hd cube_corners, tl cube_corners),
                       dimensions = (2, 2, 2) \<rparr>"

definition apart :: trs where
  "apart = \<lparr> loc = (3, 0, 0), rot = (0, 0, 1, 0), sca = (1, 1, 1) \<rparr>"

definition grey :: vec3 where
  "grey = (4 / 5, 4 / 5, 4 / 5)"

definition one_cube :: "vec3 \<Rightarrow> scene" where
  \<comment> \<open>a single cube at the origin\<close>
  "one_cube col = \<lparr> objects = [cube 10 (u ''Cube'') col], world_ambient_color = None,
                    parent = (\<lambda>ob. None), derived = (\<lambda>ob. Some [(ob, ident_trs)]),
                    local_trs = (\<lambda>p ob. ident_trs) \<rparr>"

definition two_cubes :: scene where
  \<comment> \<open>two sibling objects that share one mesh, the second one moved aside\<close>
  "two_cubes = \<lparr> objects = [cube 10 (u ''Cube'') grey, cube 11 (u ''Cube.001'') grey],
                 world_ambient_color = None, parent = (\<lambda>ob. None),
                 derived = (\<lambda>ob. Some [(ob, ident_trs)]),
                 local_trs = (\<lambda>p ob. if ob_ident ob = 10 then ident_trs else apart) \<rparr>"

definition root_type :: "str \<Rightarrow> override" where
  \<comment> \<open>an entry of the override table that gives the type and nothing else\<close>
  "root_type ty = \<lparr> webotsType = Some ty, hingeJointParameters = None, motorName = None,
                    positionSensorName = None \<rparr>"

definition solid_table :: files where
  \<comment> \<open>a file \<open>overrides.json\<close> that makes the transform of the object \<open>Cube\<close> a
     \<open>Solid\<close>\<close>
  "solid_table = \<lparr> writable = (\<lambda>p. True), isfile = (\<lambda>p. p = u ''overrides.json''),
                   json_load = (\<lambda>p. Inr [u ''CUBE_TRANSFORM'' \<mapsto> root_type (u ''Solid'')]) \<rparr>"

section \<open>Definitions and uses in the output\<close>

text \<open>
  A VRML node is named by \<open>DEF id\<close> and referred to by \<open>USE id\<close>. The tokens of a file are its
  words, as \<open>str.split()\<close> gives them; the indentation only adds white space, so they are
  the words of the fragments put one after the other.
\<close>

fun split_ws :: "str \<Rightarrow> str \<Rightarrow> str list" where
  \<comment> \<open>the words of a text, after the characters of a word begun\<close>
  "split_ws w [] = (if w = [] then [] else [w])"
| "split_ws w (c # cs) =
     (if is_space c then (if w = [] then split_ws [] cs else w # split_ws [] cs)
      else split_ws (w @ [c]) cs)"

definition tokens :: "str list \<Rightarrow> str list" where
  "tokens ls = split_ws [] (concat ls)"

fun def_before_use :: "str list \<Rightarrow> str list \<Rightarrow> bool" where
  \<comment> \<open>every \<open>USE id\<close> comes after a \<open>DEF id\<close>; \<open>seen\<close> holds the identifiers defined so far\<close>
  "def_before_use seen (t # i # ts) =
     (if t = u ''DEF'' then def_before_use (i # seen) ts
      else if t = u ''USE'' then i \<in> set seen \<and> def_before_use seen ts
      else def_before_use seen (i # ts))"
| "def_before_use seen ts = True"

definition completes :: "str list result option \<Rightarrow> bool" where
  \<comment> \<open>the run returns, and without an exception\<close>
  "completes r = (case r of Some (Inr ls) \<Rightarrow> True | _ \<Rightarrow> False)"

definition lines_of :: "str list result option \<Rightarrow> str list" where
  \<comment> \<open>the fragments of a run\<close>
  "lines_of r = (case r of Some (Inr ls) \<Rightarrow> ls | Some (Inl (e, ls)) \<Rightarrow> ls | None \<Rightarrow> [])"

fun ids_after :: "str \<Rightarrow> str list \<Rightarrow> str list" where
  \<comment> \<open>the tokens that follow the keyword \<open>k\<close>, in order\<close>
  "ids_after k (t # i # ts) = (if t = k then i # ids_after k ts else ids_after k (i # ts))"
| "ids_after k ts = []"

section \<open>Properties of the identifier sanitizer\<close>

declare replace_loop.simps [simp del]
declare collapse.simps [simp del]

lemma replace_loop_eq:
  "n = length s \<Longrightarrow> replace_loop k n s = take k s @ map under (drop k s)"
proof (induction k n s rule: replace_loop.induct)
  case (1 k n s)
  show ?case
  proof (cases "k < n")
    case False
    with 1(2) show ?thesis by (subst replace_loop.simps) simp
  next
    case True
    let ?s' = "if is_AZ (s ! k) then s else take k s @ u ''_'' @ drop (Suc k) s"
    have len: "n = length ?s'" using 1(2) True by (auto simp: min_def u_def)
    have "replace_loop k n s = replace_loop (Suc k) n ?s'"
      using True by (subst replace_loop.simps) simp
    also have "\<dots> = take (Suc k) ?s' @ map under (drop (Suc k) ?s')"
      using 1(1) [OF True len] .
    also have "take (Suc k) ?s' = take k s @ [under (s ! k)]"
      using True 1(2) by (auto simp: under_def take_Suc_conv_app_nth min_def u_def)
    also have "drop (Suc k) ?s' = drop (Suc k) s"
      using True 1(2) by (auto simp: min_def u_def)
    finally show ?thesis
      using True 1(2) by (simp add: Cons_nth_drop_Suc [symmetric])
  qed
qed

lemma replace_loop_map: "replace_loop 0 (length s) s = map under s"
  by (simp add: replace_loop_eq)

lemma id_char_under: "id_char (under c)"
  by (simp add: id_char_def under_def)

lemma id_char_underscore: "id_char us" "id_char 95"
  by (simp_all add: id_char_def)

lemma set_replace_uu: "set (replace_uu s) \<subseteq> set s"
  by (induction s rule: replace_uu.induct) auto

lemma collapse_step: "contains_uu s \<Longrightarrow> collapse s = collapse (replace_uu s)"
  by (subst collapse.simps) simp

lemma collapse_stop: "\<not> contains_uu s \<Longrightarrow> collapse s = s"
  by (subst collapse.simps) simp

lemma set_collapse: "set (collapse s) \<subseteq> set s"
proof (induction s rule: collapse.induct)
  case (1 s)
  then show ?case
    using set_replace_uu [of s]
    by (cases "contains_uu s") (auto simp: collapse_step collapse_stop)
qed

lemma collapse_no_uu: "\<not> contains_uu (collapse s)"
proof (induction s rule: collapse.induct)
  case (1 s)
  then show ?case
    by (cases "contains_uu s") (auto simp: collapse_step collapse_stop)
qed

lemma not_AZ_underscore: "\<not> is_AZ us" "\<not> is_AZ 95"
  by (simp_all add: is_AZ_def)

lemma replace_uu_keeps: "is_AZ c \<Longrightarrow> c \<in> set s \<Longrightarrow> c \<in> set (replace_uu s)"
  by (induction s rule: replace_uu.induct) (auto simp: not_AZ_underscore)

lemma collapse_keeps: "is_AZ c \<Longrightarrow> c \<in> set s \<Longrightarrow> c \<in> set (collapse s)"
proof (induction s rule: collapse.induct)
  case (1 s)
  then show ?case
    by (cases "contains_uu s") (auto simp: collapse_step collapse_stop replace_uu_keeps)
qed

lemma replace_uu_hd: "s \<noteq> [] \<Longrightarrow> replace_uu s \<noteq> [] \<and> hd (replace_uu s) = hd s"
  by (induction s rule: replace_uu.induct) auto

lemma collapse_hd: "s \<noteq> [] \<Longrightarrow> collapse s \<noteq> [] \<and> hd (collapse s) = hd s"
proof (induction s rule: collapse.induct)
  case (1 s)
  then show ?case
    using replace_uu_hd [of s]
    by (cases "contains_uu s") (auto simp: collapse_step collapse_stop)
qed

lemma contains_uu_butlast: "\<not> contains_uu s \<Longrightarrow> \<not> contains_uu (butlast s)"
  by (induction s rule: contains_uu.induct) (auto split: if_splits)

lemma no_uu_last: "\<not> contains_uu s \<Longrightarrow> last s = us \<Longrightarrow> butlast s \<noteq> [] \<Longrightarrow>
    last (butlast s) \<noteq> us"
  by (induction s rule: contains_uu.induct) (auto split: if_splits)


lemma upper_Nil_iff: "upper uc s = [] \<longleftrightarrow> s = []"
  by (cases s) (simp_all add: upper_def)

lemma hd_upper: "s \<noteq> [] \<Longrightarrow> hd (upper uc s) = fst (uc (hd s))"
  by (cases s) (simp_all add: upper_def)

lemma slugify_alt:
  "slugify uc s0 =
     (let s5 = collapse (s4_of uc s0) in if last s5 = us then butlast s5 else s5)"
  by (simp add: slugify_def s4_of_def Let_def replace_loop_map)

lemma s4_of_chars: "list_all id_char (s4_of uc s)"
  by (auto simp: s4_of_def Let_def list_all_iff id_char_under id_char_underscore u_def)

lemma s4_of_nonempty: "s4_of uc s \<noteq> []"
  by (simp add: s4_of_def Let_def upper_Nil_iff u_def)

lemma slugify_chars: "list_all id_char (slugify uc s)"
proof -
  have "set (collapse (s4_of uc s)) \<subseteq> set (s4_of uc s)" by (rule set_collapse)
  moreover have "set (butlast (collapse (s4_of uc s))) \<subseteq> set (collapse (s4_of uc s))"
    by (auto dest: in_set_butlastD)
  ultimately show ?thesis
    using s4_of_chars [of uc s] by (auto simp: slugify_alt Let_def list_all_iff)
qed

lemma slugify_no_uu: "\<not> contains_uu (slugify uc s)"
  by (simp add: slugify_alt Let_def collapse_no_uu contains_uu_butlast)

lemma slugify_last: "slugify uc s = [] \<or> last (slugify uc s) \<noteq> us"
  using no_uu_last [OF collapse_no_uu, of "s4_of uc s"]
  by (auto simp: slugify_alt Let_def)

lemma ascii_upperD:
  "ascii_upper uc \<Longrightarrow> c < 128 \<Longrightarrow> uc c = (if 97 \<le> c \<and> c \<le> 122 then c - 32 else c, [])"
  by (simp add: ascii_upper_def list_all_iff)

lemma ascii_upper_latin1_upper: "ascii_upper latin1_upper"
  by (auto simp: ascii_upper_def list_all_iff latin1_upper_def)

lemma upper_ascii:
  "ascii_upper uc \<Longrightarrow> list_all (\<lambda>c. c < 128) s \<Longrightarrow>
     upper uc s = map (\<lambda>c. if 97 \<le> c \<and> c \<le> 122 then c - 32 else c) s"
  by (induction s) (simp_all add: upper_def ascii_upperD)

lemma slugify_empty: "ascii_upper uc \<Longrightarrow> slugify uc [] = u ''NONE''"
proof -
  assume a: "ascii_upper uc"
  have "upper uc (u ''none'') = u ''NONE''"
    by (subst upper_ascii [OF a]) (simp_all add: u_def)
  then have "s4_of uc [] = u ''NONE''"
    by (simp add: s4_of_def Let_def) (simp add: u_def under_def is_AZ_def)
  moreover have "\<not> contains_uu (u ''NONE'')" by (simp add: u_def)
  ultimately show ?thesis
    by (simp add: slugify_alt Let_def collapse_stop) (simp add: u_def)
qed

lemma in_set_butlast_keep: "x \<in> set s \<Longrightarrow> x \<noteq> last s \<Longrightarrow> x \<in> set (butlast s)"
  by (induction s) (auto split: if_splits)

lemma slugify_keeps: "is_AZ c \<Longrightarrow> c \<in> set (s4_of uc s) \<Longrightarrow> c \<in> set (slugify uc s)"
proof -
  assume c: "is_AZ c" and "c \<in> set (s4_of uc s)"
  then have m: "c \<in> set (collapse (s4_of uc s))" by (rule collapse_keeps)
  show ?thesis
  proof (cases "last (collapse (s4_of uc s)) = us")
    case True
    with c have "c \<noteq> last (collapse (s4_of uc s))" by (auto simp: not_AZ_underscore)
    with m True show ?thesis by (simp add: slugify_alt Let_def in_set_butlast_keep)
  next
    case False
    with m show ?thesis by (simp add: slugify_alt Let_def)
  qed
qed

lemma s4_of_letters: "list_ex is_AZ (upper uc s) \<Longrightarrow> \<exists>c \<in> set (s4_of uc s). is_AZ c"
proof -
  assume a: "list_ex is_AZ (upper uc s)"
  then have "s \<noteq> []" by (auto simp: upper_def)
  with a show ?thesis
    by (auto simp: s4_of_def Let_def list_ex_iff under_def)
qed

lemma slugify_nonempty: "list_ex is_AZ (upper uc s) \<Longrightarrow> slugify uc s \<noteq> []"
  using s4_of_letters [of uc s] slugify_keeps [of _ uc s] by fastforce

lemma hd_butlast: "butlast s \<noteq> [] \<Longrightarrow> hd (butlast s) = hd s"
  by (cases s) auto

lemma slugify_hd: "slugify uc s \<noteq> [] \<Longrightarrow> hd (slugify uc s) = hd (s4_of uc s)"
  using collapse_hd [OF s4_of_nonempty, of uc s]
  by (auto simp: slugify_alt Let_def hd_butlast split: if_splits)

lemma s4_of_hd:
  "s \<noteq> [] \<Longrightarrow>
     hd (s4_of uc s) = (if is_AZ (hd (upper uc s)) then hd (upper uc s) else us)"
  by (cases s) (auto simp: s4_of_def Let_def upper_def under_def u_def)

lemma legal_identifierI:
  "s \<noteq> [] \<Longrightarrow> is_AZ (hd s) \<Longrightarrow> list_all id_char s \<Longrightarrow> \<not> contains_uu s \<Longrightarrow> last s \<noteq> us
    \<Longrightarrow> legal_identifier s"
  by (cases s) (auto simp: legal_identifier_def id_char_def list_all_iff)

text \<open>Running the sanitizer on a given name: the steps of \<open>slugify\<close>, one at a time.\<close>

lemma slugify_run:
  "s4_of uc s = t \<Longrightarrow> collapse t = t' \<Longrightarrow>
     slugify uc s = (if last t' = us then butlast t' else t')"
  by (simp add: slugify_alt Let_def)

lemma upper_Nil: "upper uc [] = []"
  by (simp add: upper_def)

lemma upper_Cons: "upper uc (c # s) = fst (uc c) # snd (uc c) @ upper uc s"
  by (simp add: upper_def)

lemmas slugify_steps =
  s4_of_def u_def upper_Cons upper_Nil latin1_upper_def under_def is_AZ_def collapse_step
  collapse_stop

text \<open>
  Claim C2, as the code has it. For every input and every uppercase mapping, \<open>slugify\<close>
  returns a string over \<open>A..Z\<close> and \<open>_\<close> (digits are replaced like every other
  non-letter), with no \<open>__\<close> and no trailing \<open>_\<close>; the empty input gives \<open>NONE\<close>; an input
  whose upper-cased form holds a letter \<open>A..Z\<close> gives a non-empty result. When the
  upper-cased input begins with a letter \<open>A..Z\<close>, the result is a legal identifier that
  begins with this letter; otherwise the result, when it is not empty, begins with \<open>_\<close>.
  The upper-cased input begins with the uppercase mapping of the first character of the
  input: for an ASCII character, the capital when it is a small letter and the character
  itself when it is not.
\<close>

theorem slugify_shape:
  "list_all id_char (slugify uc s)
   \<and> \<not> contains_uu (slugify uc s)
   \<and> (slugify uc s = [] \<or> last (slugify uc s) \<noteq> us)
   \<and> (ascii_upper uc \<longrightarrow> slugify uc [] = u ''NONE'')
   \<and> (list_ex is_AZ (upper uc s) \<longrightarrow> slugify uc s \<noteq> [])
   \<and> (s \<noteq> [] \<and> is_AZ (hd (upper uc s)) \<longrightarrow>
        legal_identifier (slugify uc s) \<and> hd (slugify uc s) = hd (upper uc s))
   \<and> (s \<noteq> [] \<and> \<not> is_AZ (hd (upper uc s)) \<and> slugify uc s \<noteq> [] \<longrightarrow>
        hd (slugify uc s) = us)
   \<and> (s \<noteq> [] \<longrightarrow> hd (upper uc s) = fst (uc (hd s)))
   \<and> (ascii_upper uc \<and> s \<noteq> [] \<and> hd s < 128 \<longrightarrow>
        hd (upper uc s) = (if 97 \<le> hd s \<and> hd s \<le> 122 then hd s - 32 else hd s))"
proof -
  have first: "legal_identifier (slugify uc s) \<and> hd (slugify uc s) = hd (upper uc s)"
    if "s \<noteq> []" and "is_AZ (hd (upper uc s))"
  proof -
    from that have "list_ex is_AZ (upper uc s)"
      by (cases "upper uc s") (auto simp: list_ex_iff upper_Nil_iff)
    then have ne: "slugify uc s \<noteq> []" by (rule slugify_nonempty)
    have h: "hd (slugify uc s) = hd (upper uc s)"
      using slugify_hd [OF ne] s4_of_hd [OF that(1)] that(2) by simp
    have "legal_identifier (slugify uc s)"
      using ne h that(2) slugify_chars [of uc s] slugify_no_uu [of uc s] slugify_last [of uc s]
      by (intro legal_identifierI) auto
    with h show ?thesis by simp
  qed
  have second: "hd (slugify uc s) = us"
    if "s \<noteq> []" and "\<not> is_AZ (hd (upper uc s))" and "slugify uc s \<noteq> []"
    using slugify_hd [OF that(3)] s4_of_hd [OF that(1)] that(2) by simp
  have third: "hd (upper uc s) = (if 97 \<le> hd s \<and> hd s \<le> 122 then hd s - 32 else hd s)"
    if "ascii_upper uc" and "s \<noteq> []" and "hd s < 128"
    using that by (simp add: hd_upper ascii_upperD)
  show ?thesis
    using slugify_chars [of uc s] slugify_no_uu [of uc s] slugify_last [of uc s]
      slugify_empty [of uc] slugify_nonempty [of uc s] first second third hd_upper [of s uc]
    by blast
qed

theorem slugify_shape_witness:
  "legal_identifier (slugify latin1_upper (u ''Cube.001''))
   \<and> hd (slugify latin1_upper (u ''Cube.001'')) = of_char CHR ''C''
   \<and> slugify latin1_upper (u ''1a'') \<noteq> []
   \<and> hd (slugify latin1_upper (u ''1a'')) = us
   \<and> slugify latin1_upper [] = u ''NONE''
   \<and> hd (slugify latin1_upper [0xDF]) = of_char CHR ''S''"
proof -
  have a: "u ''Cube.001'' \<noteq> [] \<and> is_AZ (hd (upper latin1_upper (u ''Cube.001'')))
      \<and> hd (upper latin1_upper (u ''Cube.001'')) = of_char CHR ''C''"
    by (simp add: u_def upper_Cons latin1_upper_def is_AZ_def)
  have b: "list_ex is_AZ (upper latin1_upper (u ''1a''))"
    by (simp add: u_def upper_Cons upper_Nil latin1_upper_def is_AZ_def)
  have c: "u ''1a'' \<noteq> [] \<and> \<not> is_AZ (hd (upper latin1_upper (u ''1a'')))"
    by (simp add: u_def upper_Cons latin1_upper_def is_AZ_def)
  have d: "[0xDF] \<noteq> ([] :: str) \<and> is_AZ (hd (upper latin1_upper [0xDF]))
      \<and> hd (upper latin1_upper [0xDF]) = of_char CHR ''S''"
    by (simp add: upper_Cons latin1_upper_def is_AZ_def)
  have "legal_identifier (slugify latin1_upper (u ''Cube.001''))
      \<and> hd (slugify latin1_upper (u ''Cube.001'')) = hd (upper latin1_upper (u ''Cube.001''))"
    using a slugify_shape [of latin1_upper "u ''Cube.001''"] by blast
  moreover have "slugify latin1_upper (u ''1a'') \<noteq> []
      \<and> hd (slugify latin1_upper (u ''1a'')) = us"
    using b c slugify_shape [of latin1_upper "u ''1a''"] by blast
  moreover have "slugify latin1_upper [] = u ''NONE''"
    using ascii_upper_latin1_upper slugify_shape [of latin1_upper "[0xDF]"] by blast
  moreover have "hd (slugify latin1_upper [0xDF]) = hd (upper latin1_upper [0xDF])"
    using d slugify_shape [of latin1_upper "[0xDF]"] by blast
  ultimately show ?thesis
    using a d by presburger
qed

text \<open>
  The claim as stated fails: a name without any letter is sanitized to the empty string
  (not to \<open>NONE\<close>), and a name that begins with a non-letter gets an identifier that
  begins with \<open>_\<close>.
\<close>

theorem slugify_illegal_results:
  "slugify latin1_upper (u ''1'') = []
   \<and> \<not> legal_identifier (slugify latin1_upper (u ''1''))
   \<and> slugify latin1_upper (u ''1a'') = u ''_A''
   \<and> \<not> legal_identifier (slugify latin1_upper (u ''1a''))"
proof -
  have one: "slugify latin1_upper (u ''1'') = []"
    by (rule trans [OF slugify_run [OF refl refl]]) (simp add: slugify_steps)
  have two: "slugify latin1_upper (u ''1a'') = u ''_A''"
    by (rule trans [OF slugify_run [OF refl refl]]) (simp add: slugify_steps)
  show ?thesis
    unfolding one two by (simp add: legal_identifier_def u_def is_AZ_def)
qed

section \<open>The identity test of the transform writer\<close>

text \<open>
  \<open>nearly_equal\<close> compares two numbers after \<open>int\<close> has truncated their multiples of
  \<open>10 ** 5\<close> towards zero. Against \<open>0\<close> that is the open interval of radius \<open>1e-5\<close>; against
  \<open>1\<close> it is the half-open interval from \<open>1\<close> upwards.
\<close>

lemma py_int_zero_iff: "py_int x = 0 \<longleftrightarrow> - 1 < x \<and> x < 1"
proof (cases "0 \<le> x")
  case True
  then show ?thesis by (auto simp: py_int_def floor_eq_iff)
next
  case False
  then show ?thesis by (auto simp: py_int_def ceiling_eq_iff)
qed

lemma nearly_equal_zero_iff: "nearly_equal a 0 \<longleftrightarrow> \<bar>a\<bar> < 1 / 10 ^ 5"
proof -
  have "nearly_equal a 0 \<longleftrightarrow> a = 0 \<or> py_int (a * 10 ^ 5) = 0"
    by (simp add: nearly_equal_def py_int_def)
  also have "\<dots> \<longleftrightarrow> - 1 < a * 10 ^ 5 \<and> a * 10 ^ 5 < 1"
    by (auto simp: py_int_zero_iff)
  also have "\<dots> \<longleftrightarrow> \<bar>a\<bar> < 1 / 10 ^ 5"
    by (auto simp: abs_less_iff field_simps)
  finally show ?thesis .
qed

lemma nearly_equal_one_iff: "nearly_equal a 1 \<longleftrightarrow> 1 \<le> a \<and> a < 1 + 1 / 10 ^ 5"
proof -
  have one: "py_int 100000 = 100000" by (simp add: py_int_def)
  have "py_int (a * 10 ^ 5) = 100000 \<longleftrightarrow> 100000 \<le> a * 10 ^ 5 \<and> a * 10 ^ 5 < 100001"
  proof (cases "0 \<le> a")
    case True
    then show ?thesis by (auto simp: py_int_def floor_eq_iff)
  next
    case False
    then have neg: "a * 10 ^ 5 < 0" by (simp add: mult_less_0_iff)
    then have "\<lceil>a * 10 ^ 5\<rceil> \<le> 0" by (simp add: ceiling_le_iff)
    then have "\<lceil>a * 10 ^ 5\<rceil> \<noteq> 100000" by linarith
    with False neg show ?thesis by (simp add: py_int_def)
  qed
  then have "nearly_equal a 1 \<longleftrightarrow> a = 1 \<or> (100000 \<le> a * 10 ^ 5 \<and> a * 10 ^ 5 < 100001)"
    by (simp add: nearly_equal_def one)
  also have "\<dots> \<longleftrightarrow> 1 \<le> a \<and> a < 1 + 1 / 10 ^ 5"
    by (auto simp: field_simps)
  finally show ?thesis .
qed

lemma identity_skipped:
  assumes "user_data def_id = None"
    and "loc m = (lx, ly, lz)" and "rot m = (rx, ry, rz, ra)" and "sca m = (sx, sy, sz)"
    and "\<bar>lx\<bar> < 1 / 10 ^ 5" "\<bar>ly\<bar> < 1 / 10 ^ 5" "\<bar>lz\<bar> < 1 / 10 ^ 5" "\<bar>ra\<bar> < 1 / 10 ^ 5"
    and "1 \<le> sx" "sx < 1 + 1 / 10 ^ 5" "1 \<le> sy" "sy < 1 + 1 / 10 ^ 5" "1 \<le> sz" "sz < 1 + 1 / 10 ^ 5"
  shows "write_transform_begin user_data ob m def_id = Inr ([], True, False)"
  using assms
  by (simp add: write_transform_begin_def is_identity_def nearly_equal_one_iff nearly_equal_zero_iff)

text \<open>
  Claim C4, at the transform whose scale on the first axis is \<open>1 - 2^-20\<close> (within \<open>1e-6\<close> of
  one), with no translation, no rotation and no override entry: \<open>int\<close> truncates
  \<open>99999.90463...\<close> to \<open>99999\<close>, so \<open>nearly_equal\<close> answers no, although it answers yes for
  \<open>1 + 2^-20\<close>; the writer emits a \<open>Transform\<close> wrapper and returns the skipped flag as
  false.
\<close>

theorem near_identity_not_skipped:
  "\<bar>1048575 / 1048576 - 1\<bar> < (1 / 10 ^ 5 :: rat)
   \<and> \<not> nearly_equal (1048575 / 1048576) 1
   \<and> nearly_equal (1048577 / 1048576) 1
   \<and> \<not> is_identity near_identity
   \<and> write_transform_begin Map.empty ob near_identity def_id =
       Inr ([u ''DEF '' @ def_id @ u '' '', u ''Transform {\<newline>''] @ trs_lines near_identity
            @ [u ''children [\<newline>''], False, False)"
  by (simp add: nearly_equal_one_iff nearly_equal_zero_iff is_identity_def near_identity_def
      write_transform_begin_def)

section \<open>Example runs\<close>

text \<open>
  The exporter is run on the example scenes inside the logic, one function at a time.
  The numbers of the examples are formatted first.
\<close>

lemma u_append: "u a @ u b = u (a @ b)"
  by (simp add: u_def)

lemma u_append_assoc: "u a @ u b @ s = u (a @ b) @ s"
  by (simp add: u_def)

lemma u_eq_iff: "u a = u b \<longleftrightarrow> a = b"
proof
  assume "u a = u b"
  then have "map (of_char :: char \<Rightarrow> nat) a = map of_char b" by (simp add: u_def)
  then show "a = b" by (rule map_injective) (simp add: inj_on_def)
qed simp

lemma u_Nil_iff: "u a = [] \<longleftrightarrow> a = []" "[] = u a \<longleftrightarrow> a = []"
  by (auto simp: u_def)

lemmas u_simps = u_append u_append_assoc u_eq_iff u_Nil_iff

lemma replicate_numeral: "replicate (numeral k) x = x # replicate (pred_numeral k) x"
  by (simp add: numeral_eq_Suc)

lemma fmt6_0: "fmt_f 6 0 = u ''0.000000''"
  apply (simp add: fmt_f_def round_half_even_def)
  apply (simp add: dec.simps digit_def zfill_def u_def)
  apply (simp add: replicate_numeral)
  done

lemma fmt6_1: "fmt_f 6 1 = u ''1.000000''"
  apply (simp add: fmt_f_def round_half_even_def)
  apply (simp add: dec.simps digit_def zfill_def u_def)
  apply (simp add: replicate_numeral)
  done

lemma fmt6_m1: "fmt_f 6 (- 1) = u ''-1.000000''"
  apply (simp add: fmt_f_def round_half_even_def)
  apply (simp add: dec.simps digit_def zfill_def u_def)
  apply (simp add: replicate_numeral)
  done

lemma fmt6_2: "fmt_f 6 2 = u ''2.000000''"
  apply (simp add: fmt_f_def round_half_even_def)
  apply (simp add: dec.simps digit_def zfill_def u_def)
  apply (simp add: replicate_numeral)
  done

lemma fmt6_3: "fmt_f 6 3 = u ''3.000000''"
  apply (simp add: fmt_f_def round_half_even_def)
  apply (simp add: dec.simps digit_def zfill_def u_def)
  apply (simp add: replicate_numeral)
  done

lemma fmt3_0: "fmt_f 3 0 = u ''0.000''"
  apply (simp add: fmt_f_def round_half_even_def)
  apply (simp add: dec.simps digit_def zfill_def u_def)
  apply (simp add: replicate_numeral)
  done

lemma fmt3_45: "fmt_f 3 (4 / 5) = u ''0.800''"
  apply (simp add: fmt_f_def round_half_even_def)
  apply (simp add: dec.simps digit_def zfill_def u_def)
  done

lemma dec_digits:
  "dec 0 = u ''0''" "dec (Suc 0) = u ''1''" "dec 2 = u ''2''" "dec 3 = u ''3''" "dec 4 = u ''4''"
  "dec 5 = u ''5''" "dec 6 = u ''6''" "dec 7 = u ''7''"
  by (simp_all add: dec.simps digit_def u_def)

lemma cube_mesh_sel:
  "me_ident (cube_mesh col) = 2" "me_name (cube_mesh col) = u ''Cube''"
  "tessfaces (cube_mesh col) = cube_faces" "polygons (cube_mesh col) = 6"
  "uv_active (cube_mesh col) = False" "materials (cube_mesh col) = [Some (plain col)]"
  "me_vertices (cube_mesh col) = cube_corners"
  by (simp_all add: cube_mesh_def)

lemma cube_sel:
  "ob_ident (cube i name col) = i" "ob_name (cube i name col) = name"
  "ob_type (cube i name col) = u ''MESH''" "visible (cube i name col)" "select (cube i name col)"
  "\<not> is_modified (cube i name col)" "data (cube i name col) = Some (cube_mesh col)"
  "bound_box (cube i name col) = (hd cube_corners, tl cube_corners)"
  "dimensions (cube i name col) = (2, 2, 2)"
  by (simp_all add: cube_def)

lemma cube_faces_of: "faces_of (cube_mesh col) = cube_faces"
  by (simp add: faces_of_def cube_mesh_sel cube_faces_def)

lemma cube_items: "face_groups_items cfg (cube_mesh col) = Inr [((0, None), [0, 1, 2, 3, 4, 5])]"
  by (simp add: face_groups_items_def mesh_materials_of_def cube_faces_of mesh_faces_image_def
      material_image_def material_use_face_texture_def face_groups_init_def cube_mesh_sel
      cube_faces_def quad_face_def plain_def upt_rec_numeral)

lemma cube_write_mesh:
  "write_mesh cfg None (cube_mesh (r, g, b)) mesh_id st =
     Inr ([u ''Shape {\<newline>'', u ''appearance PBRAppearance {\<newline>'',
           u ''baseColor '' @ fmt3 3 (clamp_color (r, g, b)) @ u ''\<newline>'',
           u ''emissiveColor 0.000 0.000 0.000\<newline>'', u ''metalness 0\<newline>'',
           u ''roughness 0.5\<newline>'', u ''}\<newline>'',
           u ''geometry IndexedFaceSet {\<newline>'', u ''coordIndex [\<newline>'',
           u ''0 1 3 2 -1 '', u ''4 6 7 5 -1 '', u ''0 4 5 1 -1 '', u ''2 3 7 6 -1 '', u ''0 2 6 4 -1 '',
           u ''1 5 7 3 -1 '', u ''\<newline>'', u '']\<newline>'', u ''coord '',
           u ''DEF COORDS_'' @ mesh_id @ u '' '', u ''Coordinate {\<newline>'',
           u ''point [\<newline>'', u ''-1.000000 -1.000000 -1.000000 '',
           u ''-1.000000 -1.000000 1.000000 '', u ''-1.000000 1.000000 -1.000000 '',
           u ''-1.000000 1.000000 1.000000 '', u ''1.000000 -1.000000 -1.000000 '',
           u ''1.000000 -1.000000 1.000000 '', u ''1.000000 1.000000 -1.000000 '',
           u ''1.000000 1.000000 1.000000 '', u ''\<newline>'', u '']\<newline>'', u ''}\<newline>'',
           u ''}\<newline>'', u ''}\<newline>''],
          st)"
  apply (simp add: write_mesh_def cube_items cube_faces_of mesh_materials_of_def cube_mesh_sel
      write_shape_def)
  apply (simp add: material_lines_def plain_def clamp_color_def clamp_def geometry_lines_def
      coord_lines_def cube_mesh_sel cube_faces_def quad_face_def coord_index_def cube_corners_def)
  apply (simp add: fmt3_def fmt6_1 fmt6_m1 fmt3_0 dec_digits u_simps)
  done


lemma unique_name_cached: "map_of d k = Some n \<Longrightarrow> unique_name f k name d = (n, d)"
  by (simp add: unique_name_def)

lemma fmt_03d_1: "fmt_03d (Suc 0) = u ''001''"
  by (simp add: fmt_03d_def zfill_def dec.simps digit_def u_def replicate_numeral)

lemma numbered_loop_free: "name_new \<notin> set vals \<Longrightarrow> numbered_loop prefix vals name_new count = name_new"
  by (subst numbered_loop.simps) simp

lemma numbered_loop_taken:
  "name_new \<in> set vals \<Longrightarrow>
     numbered_loop prefix vals name_new count =
       numbered_loop prefix vals (prefix @ fmt_03d count) (Suc count)"
  by (subst numbered_loop.simps) simp

lemma slugify_cube:
  "slugify latin1_upper (u ''Cube'') = u ''CUBE''"
  "slugify latin1_upper (u ''Cube.001'') = u ''CUBE''"
  "slugify latin1_upper (u ''ME_Cube'') = u ''ME_CUBE''"
  by (rule trans [OF slugify_run [OF refl refl]], simp add: slugify_steps)+

lemma unique_name_cube:
  "unique_name (slugify latin1_upper) 10 (u ''Cube'') [] = (u ''CUBE'', [(10, u ''CUBE'')])"
  "unique_name (slugify latin1_upper) 11 (u ''Cube.001'') [(10, u ''CUBE'')] =
     (u ''CUBE_001'', [(10, u ''CUBE''), (11, u ''CUBE_001'')])"
  "unique_name (slugify latin1_upper) 2 (u ''ME_Cube'') [] = (u ''ME_CUBE'', [(2, u ''ME_CUBE'')])"
  by (simp_all add: unique_name_def slugify_cube numbered_loop_free numbered_loop_taken
      fmt_03d_1 u_simps Let_def)

lemma is_identity_ident_trs: "is_identity ident_trs"
  by (simp add: is_identity_def ident_trs_def nearly_equal_def)

lemma not_identity_apart: "\<not> is_identity apart"
  by (simp add: is_identity_def apart_def nearly_equal_zero_iff)

lemma trs_lines_apart:
  "trs_lines apart = [u ''translation 3.000000 0.000000 0.000000\<newline>'',
                      u ''scale 1.000000 1.000000 1.000000\<newline>'',
                      u ''rotation 0.000000 0.000000 1.000000 0.000000\<newline>'']"
  by (simp add: trs_lines_def apart_def fmt3_def fmt6_0 fmt6_1 fmt6_3 u_simps)

lemma trs_lines_ident_trs:
  "trs_lines ident_trs = [u ''translation 0.000000 0.000000 0.000000\<newline>'',
                          u ''scale 1.000000 1.000000 1.000000\<newline>'',
                          u ''rotation 0.000000 0.000000 1.000000 0.000000\<newline>'']"
  by (simp add: trs_lines_def ident_trs_def fmt3_def fmt6_0 fmt6_1 u_simps)

lemma bounding_lines_cube:
  "bounding_lines (cube i name col) =
     [u ''boundingObject Transform {\<newline>'', u ''translation 0.000000 0.000000 0.000000\<newline>'',
      u ''children [\<newline>'', u ''Box {\<newline>'', u ''size 2.000000 2.000000 2.000000\<newline>'',
      u ''}\<newline>'', u '']\<newline>'', u ''}\<newline>'']"
  apply (simp add: bounding_lines_def bound_mid_def cube_sel cube_corners_def max_list_def
      min_list_def)
  apply (simp add: fmt3_def fmt6_0 fmt6_2 u_simps)
  done

lemma build_hierarchy_one: "build_hierarchy (\<lambda>ob. None) [a] = Some [Entry a []]"
  by (simp add: build_hierarchy_def test_parent.simps dict_get_def fill_subchildren_def)

lemma build_hierarchy_two: "build_hierarchy (\<lambda>ob. None) [a, b] = Some [Entry a [], Entry b []]"
  by (simp add: build_hierarchy_def test_parent.simps dict_get_def fill_subchildren_def
      upt_rec_numeral)


lemma derived_mesh_cube: "derived_mesh cfg (cube i name col) = (Some (cube_mesh col), False)"
  by (simp add: derived_mesh_def cube_sel)

lemma cfg0_sel:
  "use_selection cfg0" "\<not> use_mesh_modifiers cfg0" "path_mode cfg0 = u ''AUTO''"
  "to_upper cfg0 = latin1_upper"
  by (simp_all add: cfg0_def)

lemma xstate_start_sel:
  "uuid_cache_object xstate_start = []" "uuid_cache_mesh xstate_start = []"
  "uuid_cache_image xstate_start = []" "mesh_tag xstate_start = []"
  "image_tag xstate_start = []" "mesh_name_set xstate_start = []"
  by (simp_all add: xstate_start_def)

lemma export_derived_first:
  assumes "map_of (uuid_cache_object st) i = Some oid"
    and "uuid_cache_mesh st = []" and "mesh_tag st = []"
    and "user_data (oid @ u ''_IFS_TRANSFORM'') = None"
  shows "export_derived cfg0 user_data None (cube i name (r, g, b), ident_trs) st =
           write_mesh cfg0 None (cube_mesh (r, g, b)) (u ''ME_CUBE'')
             (st\<lparr> uuid_cache_mesh := [(2, u ''ME_CUBE'')], mesh_tag := [2] \<rparr>)"
  using assms
  by (simp add: export_derived_def cube_sel derived_mesh_cube write_indexed_face_set_def
      unique_name_cached unique_name_cube cube_mesh_sel cube_faces_of cube_faces_def
      write_transform_begin_def is_identity_ident_trs cube_write_mesh cfg0_sel u_simps)

lemma export_derived_again:
  assumes "map_of (uuid_cache_object st) i = Some oid"
    and "uuid_cache_mesh st = [(2, u ''ME_CUBE'')]" and "mesh_tag st = [2]"
    and "user_data (oid @ u ''_IFS_TRANSFORM'') = None"
  shows "export_derived cfg0 user_data None (cube i name (r, g, b), ident_trs) st =
           Inr ([u ''USE GROUP_ME_CUBE\<newline>''], st)"
  using assms
  by (simp add: export_derived_def cube_sel derived_mesh_cube write_indexed_face_set_def
      unique_name_cached cube_mesh_sel cube_faces_of cube_faces_def
      write_transform_begin_def is_identity_ident_trs cfg0_sel u_simps)


lemma two_cubes_sel:
  "objects two_cubes = [cube 10 (u ''Cube'') grey, cube 11 (u ''Cube.001'') grey]"
  "world_ambient_color two_cubes = None" "parent two_cubes = (\<lambda>ob. None)"
  "derived two_cubes ob = Some [(ob, ident_trs)]"
  "local_trs two_cubes p ob = (if ob_ident ob = 10 then ident_trs else apart)"
  by (simp_all add: two_cubes_def)

lemma two_cubes_export:
  "export cfg0 Map.empty two_cubes =
     Some (Inr (write_header
       @ [u ''Shape {\<newline>'', u ''appearance PBRAppearance {\<newline>'',
          u ''baseColor 0.800 0.800 0.800\<newline>'',
          u ''emissiveColor 0.000 0.000 0.000\<newline>'', u ''metalness 0\<newline>'',
          u ''roughness 0.5\<newline>'', u ''}\<newline>'',
          u ''geometry IndexedFaceSet {\<newline>'', u ''coordIndex [\<newline>'',
          u ''0 1 3 2 -1 '', u ''4 6 7 5 -1 '', u ''0 4 5 1 -1 '', u ''2 3 7 6 -1 '', u ''0 2 6 4 -1 '',
          u ''1 5 7 3 -1 '', u ''\<newline>'', u '']\<newline>'', u ''coord '',
          u ''DEF COORDS_ME_CUBE '', u ''Coordinate {\<newline>'',
          u ''point [\<newline>'', u ''-1.000000 -1.000000 -1.000000 '',
          u ''-1.000000 -1.000000 1.000000 '', u ''-1.000000 1.000000 -1.000000 '',
          u ''-1.000000 1.000000 1.000000 '', u ''1.000000 -1.000000 -1.000000 '',
          u ''1.000000 -1.000000 1.000000 '', u ''1.000000 1.000000 -1.000000 '',
          u ''1.000000 1.000000 1.000000 '', u ''\<newline>'', u '']\<newline>'', u ''}\<newline>'',
          u ''}\<newline>'', u ''}\<newline>'',
          u ''DEF CUBE_001_TRANSFORM '', u ''Transform {\<newline>'',
          u ''translation 3.000000 0.000000 0.000000\<newline>'',
          u ''scale 1.000000 1.000000 1.000000\<newline>'',
          u ''rotation 0.000000 0.000000 1.000000 0.000000\<newline>'',
          u ''children [\<newline>'', u ''USE GROUP_ME_CUBE\<newline>'', u '']\<newline>'',
          u ''}\<newline>'']))"
proof -
  let ?s1 = "\<lparr> uuid_cache_object = [(10, u ''CUBE'')], uuid_cache_mesh = [],
      uuid_cache_image = [], mesh_tag = [], image_tag = [], mesh_name_set = [] \<rparr>"
  let ?s2 = "\<lparr> uuid_cache_object = [(10, u ''CUBE'')], uuid_cache_mesh = [(2, u ''ME_CUBE'')],
      uuid_cache_image = [], mesh_tag = [2], image_tag = [], mesh_name_set = [] \<rparr>"
  let ?s3 = "\<lparr> uuid_cache_object = [(10, u ''CUBE''), (11, u ''CUBE_001'')],
      uuid_cache_mesh = [(2, u ''ME_CUBE'')],
      uuid_cache_image = [], mesh_tag = [2], image_tag = [], mesh_name_set = [] \<rparr>"
  have first: "export_derived cfg0 Map.empty None (cube 10 (u ''Cube'') grey, ident_trs) ?s1 =
      write_mesh cfg0 None (cube_mesh grey) (u ''ME_CUBE'') ?s2"
    unfolding grey_def
    by (subst export_derived_first [where oid = "u ''CUBE''"]) simp_all
  have again: "export_derived cfg0 Map.empty None (cube 11 (u ''Cube.001'') grey, ident_trs) ?s3 =
      Inr ([u ''USE GROUP_ME_CUBE\<newline>''], ?s3)"
    unfolding grey_def
    by (subst export_derived_again [where oid = "u ''CUBE_001''"]) simp_all
  have o1: "export_object cfg0 Map.empty two_cubes None (Entry (cube 10 (u ''Cube'') grey) [])
      xstate_start = write_mesh cfg0 None (cube_mesh grey) (u ''ME_CUBE'') ?s2"
    apply (simp add: unique_name_cube xstate_start_def two_cubes_sel cube_sel cfg0_sel
        write_transform_begin_def is_identity_ident_trs first u_simps)
    apply (simp add: grey_def cube_write_mesh)
    done
  have o2: "export_object cfg0 Map.empty two_cubes None (Entry (cube 11 (u ''Cube.001'') grey) []) ?s2 =
      Inr ([u ''DEF CUBE_001_TRANSFORM '', u ''Transform {\<newline>'',
            u ''translation 3.000000 0.000000 0.000000\<newline>'',
            u ''scale 1.000000 1.000000 1.000000\<newline>'',
            u ''rotation 0.000000 0.000000 1.000000 0.000000\<newline>'',
            u ''children [\<newline>'', u ''USE GROUP_ME_CUBE\<newline>'', u '']\<newline>'',
            u ''}\<newline>''], ?s3)"
    by (simp add: unique_name_cube two_cubes_sel cube_sel write_transform_begin_def cfg0_sel
        not_identity_apart trs_lines_apart again write_transform_end_def u_simps)
  show ?thesis
    apply (simp add: export_def selected_objects_def two_cubes_sel cfg0_sel cube_sel
        build_hierarchy_two o1 del: export_object.simps)
    apply (simp add: grey_def cube_write_mesh fmt3_def clamp_color_def clamp_def fmt3_45
        u_simps del: export_object.simps)
    apply (simp add: grey_def [symmetric] o2 del: export_object.simps)
    done
qed

lemma one_cube_sel:
  "objects (one_cube col) = [cube 10 (u ''Cube'') col]"
  "world_ambient_color (one_cube col) = None" "parent (one_cube col) = (\<lambda>ob. None)"
  "derived (one_cube col) ob = Some [(ob, ident_trs)]"
  "local_trs (one_cube col) p ob = ident_trs"
  by (simp_all add: one_cube_def)

lemma root_type_sel:
  "webotsType (root_type ty) = Some ty" "hingeJointParameters (root_type ty) = None"
  "motorName (root_type ty) = None" "positionSensorName (root_type ty) = None"
  by (simp_all add: root_type_def)

text \<open>
  The single cube, under any override table that has no entry for the transform of its
  geometry: what \<open>export\<close> writes around the \<open>Shape\<close> is what \<open>write_transform_begin\<close>
  writes for the object.
\<close>

lemma one_cube_export:
  assumes "user_data (u ''CUBE_IFS_TRANSFORM'') = None"
  shows "export cfg0 user_data (one_cube (r, g, b)) =
     Some (case write_transform_begin user_data (cube 10 (u ''Cube'') (r, g, b)) ident_trs
                  (u ''CUBE_TRANSFORM'') of
             Inl (e, ls) \<Rightarrow> Inl (e, write_header @ ls)
           | Inr (begin_lines, skipUselessTransform, supplementaryCurvyBracket) \<Rightarrow>
               Inr (write_header @ begin_lines
                 @ [u ''Shape {\<newline>'', u ''appearance PBRAppearance {\<newline>'',
                  u ''baseColor '' @ fmt3 3 (clamp_color (r, g, b)) @ u ''\<newline>'',
                  u ''emissiveColor 0.000 0.000 0.000\<newline>'', u ''metalness 0\<newline>'',
                  u ''roughness 0.5\<newline>'', u ''}\<newline>'',
                  u ''geometry IndexedFaceSet {\<newline>'', u ''coordIndex [\<newline>'',
                  u ''0 1 3 2 -1 '', u ''4 6 7 5 -1 '', u ''0 4 5 1 -1 '', u ''2 3 7 6 -1 '', u ''0 2 6 4 -1 '',
                  u ''1 5 7 3 -1 '', u ''\<newline>'', u '']\<newline>'', u ''coord '',
                  u ''DEF COORDS_ME_CUBE '', u ''Coordinate {\<newline>'',
                  u ''point [\<newline>'', u ''-1.000000 -1.000000 -1.000000 '',
                  u ''-1.000000 -1.000000 1.000000 '', u ''-1.000000 1.000000 -1.000000 '',
                  u ''-1.000000 1.000000 1.000000 '', u ''1.000000 -1.000000 -1.000000 '',
                  u ''1.000000 -1.000000 1.000000 '', u ''1.000000 1.000000 -1.000000 '',
                  u ''1.000000 1.000000 1.000000 '', u ''\<newline>'', u '']\<newline>'', u ''}\<newline>'',
                  u ''}\<newline>'', u ''}\<newline>'']
                 @ (if \<not> skipUselessTransform
                    then write_transform_end supplementaryCurvyBracket else [])))"
proof -
  let ?s1 = "\<lparr> uuid_cache_object = [(10, u ''CUBE'')], uuid_cache_mesh = [],
      uuid_cache_image = [], mesh_tag = [], image_tag = [], mesh_name_set = [] \<rparr>"
  let ?s2 = "\<lparr> uuid_cache_object = [(10, u ''CUBE'')], uuid_cache_mesh = [(2, u ''ME_CUBE'')],
      uuid_cache_image = [], mesh_tag = [2], image_tag = [], mesh_name_set = [] \<rparr>"
  have first: "export_derived cfg0 user_data None (cube 10 (u ''Cube'') (r, g, b), ident_trs) ?s1 =
      write_mesh cfg0 None (cube_mesh (r, g, b)) (u ''ME_CUBE'') ?s2"
    by (subst export_derived_first [where oid = "u ''CUBE''"]) (simp_all add: assms u_simps)
  show ?thesis
    apply (simp add: export_def selected_objects_def one_cube_sel cfg0_sel cube_sel
        build_hierarchy_one)
    apply (simp add: unique_name_cube xstate_start_def one_cube_sel cube_sel cfg0_sel u_simps
        first cube_write_mesh
        split: sum.split prod.split)
    done
qed

section \<open>The override table\<close>

lemma no_entry_begin:
  "write_transform_begin Map.empty ob ident_trs def_id = Inr ([], True, False)"
  by (simp add: write_transform_begin_def is_identity_ident_trs)

lemma solid_entry_begin:
  "write_transform_begin [u ''CUBE_TRANSFORM'' \<mapsto> root_type (u ''Solid'')] ob ident_trs
     (u ''CUBE_TRANSFORM'') =
   Inr ([u ''DEF CUBE_TRANSFORM '', u ''Solid {\<newline>''] @ trs_lines ident_trs
        @ [u ''physics Physics {\<newline>'', u ''}\<newline>''] @ bounding_lines ob
        @ [u ''children [\<newline>''], False, False)"
  by (simp add: write_transform_begin_def root_type_sel u_simps)

lemma plain_cube_completes: "completes (export cfg0 Map.empty (one_cube col))"
  by (cases col) (simp add: one_cube_export no_entry_begin completes_def)

lemma solid_cube_completes:
  "completes (export cfg0 [u ''CUBE_TRANSFORM'' \<mapsto> root_type (u ''Solid'')] (one_cube col))"
  by (cases col) (simp add: one_cube_export solid_entry_begin completes_def u_simps)

lemma solid_cube_differs:
  "lines_of (export cfg0 [u ''CUBE_TRANSFORM'' \<mapsto> root_type (u ''Solid'')] (one_cube col))
     \<noteq> lines_of (export cfg0 Map.empty (one_cube col))"
  by (cases col)
    (simp add: one_cube_export no_entry_begin solid_entry_begin lines_of_def u_simps)

lemma save_completes:
  "writable fs filepath \<Longrightarrow> load_user_data fs user_data_path = Inr user_data \<Longrightarrow>
   completes (export cfg user_data sc) \<Longrightarrow>
   save fs cfg sc filepath user_data_path =
     Some (Inr (u ''FINISHED'', written (lines_of (export cfg user_data sc))))"
  by (auto simp: save_def completes_def lines_of_def split: option.splits sum.splits)

text \<open>
  Claim C7, as the code has it. \<open>save\<close> opens the output file, then reads the override
  table, then calls \<open>export\<close>. The table is read only when its path is not empty and
  names a file; otherwise the export runs with the empty table, and \<open>save\<close> returns
  \<open>FINISHED\<close> when the export returns. When the table is there and is parsed, the export
  runs with it. When opening or parsing it raises, nothing catches the exception: \<open>save\<close>
  ends with it, \<open>export\<close> is never called and nothing has been written to the file.
\<close>

theorem save_override_table:
  "(writable fs filepath \<and> (user_data_path = [] \<or> \<not> isfile fs user_data_path) \<longrightarrow>
      save fs cfg sc filepath user_data_path =
        (case export cfg Map.empty sc of
           None \<Rightarrow> None
         | Some (Inl (e, ls)) \<Rightarrow> Some (Inl (e, written ls))
         | Some (Inr ls) \<Rightarrow> Some (Inr (u ''FINISHED'', written ls))))
   \<and> (writable fs filepath \<and> user_data_path \<noteq> [] \<and> isfile fs user_data_path
        \<and> json_load fs user_data_path = Inr user_data \<longrightarrow>
      save fs cfg sc filepath user_data_path =
        (case export cfg user_data sc of
           None \<Rightarrow> None
         | Some (Inl (e, ls)) \<Rightarrow> Some (Inl (e, written ls))
         | Some (Inr ls) \<Rightarrow> Some (Inr (u ''FINISHED'', written ls))))
   \<and> (writable fs filepath \<and> user_data_path \<noteq> [] \<and> isfile fs user_data_path
        \<and> json_load fs user_data_path = Inl err \<longrightarrow>
      save fs cfg sc filepath user_data_path = Some (Inl (err, [])))"
  by (auto simp: save_def load_user_data_def split: option.splits sum.splits)

theorem save_override_table_witness:
  "save no_files cfg0 (one_cube grey) (u ''out.wbt'') (u ''overrides.json'')
     = Some (Inr (u ''FINISHED'', written (lines_of (export cfg0 Map.empty (one_cube grey)))))
   \<and> save solid_table cfg0 (one_cube grey) (u ''out.wbt'') (u ''overrides.json'')
     = Some (Inr (u ''FINISHED'',
         written (lines_of (export cfg0 [u ''CUBE_TRANSFORM'' \<mapsto> root_type (u ''Solid'')]
           (one_cube grey)))))
   \<and> lines_of (export cfg0 [u ''CUBE_TRANSFORM'' \<mapsto> root_type (u ''Solid'')] (one_cube grey))
     \<noteq> lines_of (export cfg0 Map.empty (one_cube grey))
   \<and> save broken_table cfg0 (one_cube grey) (u ''out.wbt'') (u ''overrides.json'')
     = Some (Inl (JSONDecodeError, []))"
proof -
  let ?tbl = "[u ''CUBE_TRANSFORM'' \<mapsto> root_type (u ''Solid'')]"
  have a: "writable no_files (u ''out.wbt'')
      \<and> (u ''overrides.json'' = [] \<or> \<not> isfile no_files (u ''overrides.json''))"
    by (simp add: no_files_def)
  have b: "writable solid_table (u ''out.wbt'') \<and> u ''overrides.json'' \<noteq> []
      \<and> isfile solid_table (u ''overrides.json'')
      \<and> json_load solid_table (u ''overrides.json'') = Inr ?tbl"
    by (simp add: solid_table_def u_simps)
  have c: "writable broken_table (u ''out.wbt'') \<and> u ''overrides.json'' \<noteq> []
      \<and> isfile broken_table (u ''overrides.json'')
      \<and> json_load broken_table (u ''overrides.json'') = Inl JSONDecodeError"
    by (simp add: broken_table_def u_simps)
  obtain ls where ls: "export cfg0 Map.empty (one_cube grey) = Some (Inr ls)"
    using plain_cube_completes [of grey]
    by (auto simp: completes_def split: option.splits sum.splits)
  obtain ls' where ls': "export cfg0 ?tbl (one_cube grey) = Some (Inr ls')"
    using solid_cube_completes [of grey]
    by (auto simp: completes_def split: option.splits sum.splits)
  have "save no_files cfg0 (one_cube grey) (u ''out.wbt'') (u ''overrides.json'')
      = Some (Inr (u ''FINISHED'', written (lines_of (export cfg0 Map.empty (one_cube grey)))))"
    using a ls
      save_override_table [where fs = no_files and filepath = "u ''out.wbt''"
        and user_data_path = "u ''overrides.json''" and cfg = cfg0 and sc = "one_cube grey"]
    by (simp add: lines_of_def)
  moreover have "save solid_table cfg0 (one_cube grey) (u ''out.wbt'') (u ''overrides.json'')
      = Some (Inr (u ''FINISHED'', written (lines_of (export cfg0 ?tbl (one_cube grey)))))"
    using b ls'
      save_override_table [where fs = solid_table and filepath = "u ''out.wbt''"
        and user_data_path = "u ''overrides.json''" and cfg = cfg0 and sc = "one_cube grey"
        and user_data = ?tbl]
    by (simp add: lines_of_def)
  moreover have "save broken_table cfg0 (one_cube grey) (u ''out.wbt'') (u ''overrides.json'')
      = Some (Inl (JSONDecodeError, []))"
    using c
      save_override_table [where fs = broken_table and filepath = "u ''out.wbt''"
        and user_data_path = "u ''overrides.json''" and cfg = cfg0 and sc = "one_cube grey"
        and err = JSONDecodeError]
    by simp
  ultimately show ?thesis
    using solid_cube_differs [of grey] by blast
qed

text \<open>
  The claim as stated fails: with a table that is present and is not JSON, \<open>save\<close> raises
  \<open>JSONDecodeError\<close> before anything is written, while the same scene is exported when
  there is no table.
\<close>

theorem save_unparsable_table_aborts:
  "isfile broken_table (u ''overrides.json'')
   \<and> json_load broken_table (u ''overrides.json'') = Inl JSONDecodeError
   \<and> save broken_table cfg0 (one_cube grey) (u ''out.wbt'') (u ''overrides.json'')
       = Some (Inl (JSONDecodeError, []))
   \<and> completes (export cfg0 Map.empty (one_cube grey))
   \<and> save no_files cfg0 (one_cube grey) (u ''out.wbt'') (u ''overrides.json'')
       = Some (Inr (u ''FINISHED'', written (lines_of (export cfg0 Map.empty (one_cube grey)))))"
proof -
  have "load_user_data no_files (u ''overrides.json'') = Inr Map.empty"
    by (simp add: load_user_data_def no_files_def)
  then have "save no_files cfg0 (one_cube grey) (u ''out.wbt'') (u ''overrides.json'')
       = Some (Inr (u ''FINISHED'', written (lines_of (export cfg0 Map.empty (one_cube grey)))))"
    by (intro save_completes plain_cube_completes) (simp_all add: no_files_def)
  moreover have "save broken_table cfg0 (one_cube grey) (u ''out.wbt'') (u ''overrides.json'')
       = Some (Inl (JSONDecodeError, []))"
    by (simp add: save_def load_user_data_def broken_table_def u_simps)
  ultimately show ?thesis
    using plain_cube_completes [of grey] by (simp add: broken_table_def u_simps)
qed

end
